theory Spec2Isabelle
  imports Main "HOL-Library.Word" "HOL-Library.AList"
begin

section \<open>The intermediate representation\<close>

text \<open>
  The two passes work on LLVM IR. The part of it that they read and write is embedded
  here: types, values (operands), and instructions. An instruction is known by its
  identity (the pointer of the C++ code), a natural number; an operand that is the
  result of an instruction refers to it by that number.
\<close>

datatype Type =
    VoidTy
  | IntegerTy nat
  | FloatTy
  | PointerTy Type
  | ArrayTy nat Type
  | StructTy "Type list"

fun isAggregateType :: "Type \<Rightarrow> bool" where
  "isAggregateType (ArrayTy n t) = True"
| "isAggregateType (StructTy ts) = True"
| "isAggregateType t = False"

fun isIntegerTy :: "Type \<Rightarrow> nat \<Rightarrow> bool" where
  "isIntegerTy (IntegerTy w) n = (w = n)"
| "isIntegerTy t n = False"

fun getPointerElementType :: "Type \<Rightarrow> Type option" where
  "getPointerElementType (PointerTy t) = Some t"
| "getPointerElementType t = None"

text \<open>
  A constant integer carries its bit width and its bits, zero-extended to 64 bits
  (the result type of \<open>getZExtValue\<close>).
\<close>

datatype Value =
    ConstantInt nat "64 word"
  | GlobalVariable string Type
  | InstValue nat Type
  | UndefValue Type

fun typeOf :: "Value \<Rightarrow> Type" where
  "typeOf (ConstantInt w k) = IntegerTy w"
| "typeOf (GlobalVariable n t) = PointerTy t"
| "typeOf (InstValue i t) = t"
| "typeOf (UndefValue t) = t"

fun isConstantInt :: "Value \<Rightarrow> bool" where
  "isConstantInt (ConstantInt w k) = True"
| "isConstantInt v = False"

fun isGlobalVariable :: "Value \<Rightarrow> bool" where
  "isGlobalVariable (GlobalVariable n t) = True"
| "isGlobalVariable v = False"

definition getZExtValue :: "nat \<Rightarrow> 64 word \<Rightarrow> 64 word" where
  "getZExtValue w k = k"

definition getSExtValue :: "nat \<Rightarrow> 64 word \<Rightarrow> int" where
  "getSExtValue w k =
     (let n = uint k mod 2 ^ w
      in if 0 < w \<and> 2 ^ (w - 1) \<le> n then n - 2 ^ w else n)"

datatype Instruction =
    StoreInst nat Value Value
  | LoadInst nat Value Type
  | AddInst nat Value Value Type
  | CastInst nat Value Type
  | AllocaInst nat Type string
  | CallInst nat string "Value list"
  | ReturnInst nat
  | BranchInst nat "nat list"
  | OtherInst nat "Value list" Type

fun instId :: "Instruction \<Rightarrow> nat" where
  "instId (StoreInst i v p) = i"
| "instId (LoadInst i p t) = i"
| "instId (AddInst i a b t) = i"
| "instId (CastInst i v t) = i"
| "instId (AllocaInst i t n) = i"
| "instId (CallInst i f args) = i"
| "instId (ReturnInst i) = i"
| "instId (BranchInst i ss) = i"
| "instId (OtherInst i ops t) = i"

fun instType :: "Instruction \<Rightarrow> Type" where
  "instType (StoreInst i v p) = VoidTy"
| "instType (LoadInst i p t) = t"
| "instType (AddInst i a b t) = t"
| "instType (CastInst i v t) = t"
| "instType (AllocaInst i t n) = PointerTy t"
| "instType (CallInst i f args) = VoidTy"
| "instType (ReturnInst i) = VoidTy"
| "instType (BranchInst i ss) = VoidTy"
| "instType (OtherInst i ops t) = t"

text \<open>The instruction seen as a value (the upcast of \<open>Instruction*\<close> to \<open>Value*\<close>).\<close>

definition instValue :: "Instruction \<Rightarrow> Value" where
  "instValue i = InstValue (instId i) (instType i)"

fun mapOperands :: "(Value \<Rightarrow> Value) \<Rightarrow> Instruction \<Rightarrow> Instruction" where
  "mapOperands g (StoreInst i v p) = StoreInst i (g v) (g p)"
| "mapOperands g (LoadInst i p t) = LoadInst i (g p) t"
| "mapOperands g (AddInst i a b t) = AddInst i (g a) (g b) t"
| "mapOperands g (CastInst i v t) = CastInst i (g v) t"
| "mapOperands g (AllocaInst i t n) = AllocaInst i t n"
| "mapOperands g (CallInst i f args) = CallInst i f (map g args)"
| "mapOperands g (ReturnInst i) = ReturnInst i"
| "mapOperands g (BranchInst i ss) = BranchInst i ss"
| "mapOperands g (OtherInst i ops t) = OtherInst i (map g ops) t"

text \<open>
  The body of a function is the list of its basic blocks, each the list of its
  instructions; \<open>concat\<close> is the order of \<open>for (auto &bb : *f) for (auto &i : bb)\<close>.
\<close>

type_synonym Body = "Instruction list list"

definition findInst :: "nat \<Rightarrow> Body \<Rightarrow> Instruction option" where
  "findInst i b = find (\<lambda>x. instId x = i) (concat b)"

fun insertBeforeL :: "nat \<Rightarrow> Instruction \<Rightarrow> Instruction list \<Rightarrow> Instruction list" where
  "insertBeforeL pos new [] = []"
| "insertBeforeL pos new (x # xs) =
     (if instId x = pos then new # x # xs else x # insertBeforeL pos new xs)"

definition insertBefore :: "nat \<Rightarrow> Instruction \<Rightarrow> Body \<Rightarrow> Body" where
  "insertBefore pos new b = map (insertBeforeL pos new) b"

definition updateInst :: "nat \<Rightarrow> (Instruction \<Rightarrow> Instruction) \<Rightarrow> Body \<Rightarrow> Body" where
  "updateInst i g b = map (map (\<lambda>x. if instId x = i then g x else x)) b"

definition replaceValue :: "Value \<Rightarrow> Value \<Rightarrow> Value \<Rightarrow> Value" where
  "replaceValue old new v = (if v = old then new else v)"

definition eraseFromParent :: "nat list \<Rightarrow> Body \<Rightarrow> Body" where
  "eraseFromParent ids b = map (filter (\<lambda>x. instId x \<notin> set ids)) b"

section \<open>The stack pass (stack.cpp)\<close>

text \<open>
  The function being rewritten: its body and the next unused instruction identity
  (what \<open>new\<close> returns next).
\<close>

record FncState =
  body :: Body
  fresh :: nat

text \<open>\<open>ReplaceItem { inst, from, to }\<close>; \<open>to\<close> is the slot, an alloca, kept as its
  identity and its allocated type.\<close>

record ReplaceItem =
  ri_inst :: nat
  ri_from :: Value
  ri_to :: "nat \<times> Type"

definition slotValue :: "nat \<times> Type \<Rightarrow> Value" where
  "slotValue a = InstValue (fst a) (PointerTy (snd a))"

definition getAllocatedType :: "nat \<times> Type \<Rightarrow> Type" where
  "getAllocatedType a = snd a"

text \<open>
  Modelled from the spec: \<open>convertValueToType\<close> (utils/type.h, not among the sources)
  is the spec's "type-coercion": it gives a value of the wanted type, inserting a
  conversion before the given instruction when the value is not of that type already.
\<close>

definition convertValueToType :: "Value \<Rightarrow> Type \<Rightarrow> nat \<Rightarrow> FncState \<Rightarrow> Value \<times> FncState" where
  "convertValueToType v t before s =
     (if typeOf v = t then (v, s)
      else (InstValue (fresh s) t,
            s\<lparr>body := insertBefore before (CastInst (fresh s) v t) (body s),
              fresh := Suc (fresh s)\<rparr>))"

definition newStoreInst :: "Value \<Rightarrow> Value \<Rightarrow> nat \<Rightarrow> FncState \<Rightarrow> FncState" where
  "newStoreInst v p before s =
     s\<lparr>body := insertBefore before (StoreInst (fresh s) v p) (body s),
       fresh := Suc (fresh s)\<rparr>"

definition newLoadInst :: "Value \<Rightarrow> Type \<Rightarrow> nat \<Rightarrow> FncState \<Rightarrow> Value \<times> FncState" where
  "newLoadInst p t before s =
     (InstValue (fresh s) t,
      s\<lparr>body := insertBefore before (LoadInst (fresh s) p t) (body s),
        fresh := Suc (fresh s)\<rparr>)"

text \<open>
  One turn of the loop over \<open>replaceItems\<close> at the end of \<open>runOnFunction\<close>
  (stack.cpp, lines 164 to 217). The state is the function and the set \<open>toErase\<close>.
  \<open>None\<close> stands for an item whose instruction is not in the function.
\<close>

definition replaceStore ::
    "ReplaceItem \<Rightarrow> nat \<Rightarrow> Value \<Rightarrow> Value \<Rightarrow> FncState \<times> nat list \<Rightarrow> FncState \<times> nat list" where
  "replaceStore ri sid v p st =
     (case st of (s, toErase) \<Rightarrow>
        if isAggregateType (getAllocatedType (ri_to ri)) then
          (case convertValueToType (slotValue (ri_to ri)) (typeOf p) (ri_inst ri) s of
             (conv, s1) \<Rightarrow>
               (s1\<lparr>body := updateInst sid (\<lambda>x. StoreInst sid v conv) (body s1)\<rparr>, toErase))
        else
          (case convertValueToType v (getAllocatedType (ri_to ri)) (ri_inst ri) s of
             (conv, s1) \<Rightarrow>
               let s2 = newStoreInst conv (slotValue (ri_to ri)) (ri_inst ri) s1;
                   e2 = List.insert sid toErase;
                   s3 = newStoreInst conv (slotValue (ri_to ri)) (ri_inst ri) s2;
                   e3 = List.insert sid e2
               in (s3, e3)))"

definition replaceLoad ::
    "ReplaceItem \<Rightarrow> nat \<Rightarrow> Value \<Rightarrow> Type \<Rightarrow> FncState \<times> nat list \<Rightarrow> FncState \<times> nat list" where
  "replaceLoad ri lid p t st =
     (case st of (s, toErase) \<Rightarrow>
        if isAggregateType (getAllocatedType (ri_to ri)) then
          (case convertValueToType (slotValue (ri_to ri)) (typeOf p) (ri_inst ri) s of
             (conv, s1) \<Rightarrow>
               (s1\<lparr>body := updateInst lid (\<lambda>x. LoadInst lid conv t) (body s1)\<rparr>, toErase))
        else
          (case newLoadInst (slotValue (ri_to ri)) (getAllocatedType (ri_to ri)) lid s of
             (nl, s1) \<Rightarrow>
               (case convertValueToType nl t lid s1 of
                  (conv, s2) \<Rightarrow>
                    (s2\<lparr>body := map (map (mapOperands (replaceValue (InstValue lid t) conv)))
                                     (body s2)\<rparr>,
                     List.insert lid toErase))))"

definition replaceOther :: "ReplaceItem \<Rightarrow> FncState \<times> nat list \<Rightarrow> FncState \<times> nat list" where
  "replaceOther ri st =
     (case st of (s, toErase) \<Rightarrow>
        (case convertValueToType (slotValue (ri_to ri)) (typeOf (ri_from ri)) (ri_inst ri) s of
           (conv, s1) \<Rightarrow>
             (s1\<lparr>body := updateInst (ri_inst ri) (mapOperands (replaceValue (ri_from ri) conv)) (body s1)\<rparr>,
              toErase)))"

definition applyReplaceItem ::
    "ReplaceItem \<Rightarrow> FncState \<times> nat list \<Rightarrow> (FncState \<times> nat list) option" where
  "applyReplaceItem ri st =
     (case findInst (ri_inst ri) (body (fst st)) of
        None \<Rightarrow> None
      | Some (StoreInst sid v p) \<Rightarrow>
          Some (if p = ri_from ri then replaceStore ri sid v p st else replaceOther ri st)
      | Some (LoadInst lid p t) \<Rightarrow>
          Some (if p = ri_from ri then replaceLoad ri lid p t st else replaceOther ri st)
      | Some i \<Rightarrow> Some (replaceOther ri st))"

fun applyReplaceItems ::
    "ReplaceItem list \<Rightarrow> FncState \<times> nat list \<Rightarrow> (FncState \<times> nat list) option" where
  "applyReplaceItems [] st = Some st"
| "applyReplaceItems (ri # ris) st =
     (case applyReplaceItem ri st of
        None \<Rightarrow> None
      | Some st' \<Rightarrow> applyReplaceItems ris st')"

text \<open>The whole of the last phase: the loop, then the erasure of \<open>toErase\<close>.\<close>

definition applyRewrites :: "ReplaceItem list \<Rightarrow> FncState \<Rightarrow> FncState option" where
  "applyRewrites ris s =
     (case applyReplaceItems ris (s, []) of
        None \<Rightarrow> None
      | Some (s', toErase) \<Rightarrow> Some (s'\<lparr>body := eraseFromParent toErase (body s')\<rparr>))"


subsection \<open>The analysis of one instruction\<close>

text \<open>
  Modelled from the spec: the symbolic tree (analyses/symbolic_tree.h, not among the
  sources) is "a node with: value, ops and a flag val2val_used". How a tree is built
  and how it is simplified are parameters of the pass (see \<open>StackExt\<close>).
\<close>

datatype SymbolicTree = SymbolicTree (nodeValue: "Value option") (ops: "SymbolicTree list") (val2valUsed: bool)

definition isVal2ValMapUsed :: "SymbolicTree \<Rightarrow> bool" where
  "isVal2ValMapUsed t = val2valUsed t"

fun getPostOrder :: "SymbolicTree \<Rightarrow> SymbolicTree list" where
  "getPostOrder (SymbolicTree v ts u) = concat (map getPostOrder ts) @ [SymbolicTree v ts u]"

fun treeHeight :: "SymbolicTree \<Rightarrow> nat" where
  "treeHeight (SymbolicTree v ts u) = Suc (fold max (map treeHeight ts) 0)"

fun levelsFrom :: "nat \<Rightarrow> SymbolicTree list \<Rightarrow> SymbolicTree list" where
  "levelsFrom 0 ts = []"
| "levelsFrom (Suc n) ts = ts @ levelsFrom n (concat (map ops ts))"

definition getLevelOrder :: "SymbolicTree \<Rightarrow> SymbolicTree list" where
  "getLevelOrder t = levelsFrom (treeHeight t) [t]"

record DebugVar =
  dv_name :: string
  dv_isStack :: bool
  dv_stackOffset :: int
  dv_type :: Type

text \<open>
  What the pass takes from its collaborators, for one function: the construction of a
  symbolic tree over a value from the reaching definitions and the substitution map
  (\<open>SymbolicTree root(RDA, val, &val2val)\<close>), its simplification, the predicates of
  the configuration, the test for the stores that anchor IR to machine instructions,
  the debug information (\<open>None\<close> when \<open>_dbgf\<close> is null, \<open>Some None\<close> when it has no
  function at this function's address) and the interning of a stack slot
  (\<open>IrModifier::getStackVariable\<close>).
\<close>

record StackExt =
  mkTree :: "Value \<Rightarrow> (Value \<rightharpoonup> Value) \<Rightarrow> SymbolicTree"
  simplifyNode :: "SymbolicTree \<Rightarrow> SymbolicTree"
  isStackPointerRegister :: "Value \<Rightarrow> bool"
  isRegister :: "Value \<Rightarrow> bool"
  isLlvmToAsmInstruction :: "Instruction \<Rightarrow> bool"
  dbgf :: "DebugVar list option option"
  getStackVariable :: "FncState \<Rightarrow> int \<Rightarrow> Type \<Rightarrow> string \<Rightarrow> (nat \<times> Type) \<times> FncState"

record PassState =
  fnc :: FncState
  replaceItems :: "ReplaceItem list"
  val2val :: "Value \<rightharpoonup> Value"

definition instOfValue :: "Body \<Rightarrow> Value option \<Rightarrow> Instruction option" where
  "instOfValue b v = (case v of Some (InstValue i t) \<Rightarrow> findInst i b | _ \<Rightarrow> None)"

text \<open>The test of the loop of \<open>getDebugStackVariable\<close>: an addition of a constant to a load.\<close>

definition addOfLoadAndConst :: "Body \<Rightarrow> SymbolicTree \<Rightarrow> (Value \<times> nat \<times> 64 word) option" where
  "addOfLoadAndConst b n =
     (case instOfValue b (nodeValue n) of
        Some (AddInst i x y t) \<Rightarrow>
          (case ops n of
             [o0, o1] \<Rightarrow>
               (case (instOfValue b (nodeValue o0), nodeValue o1) of
                  (Some (LoadInst l p lt), Some (ConstantInt w k)) \<Rightarrow> Some (p, w, k)
                | _ \<Rightarrow> None)
           | _ \<Rightarrow> None)
      | _ \<Rightarrow> None)"

text \<open>\<open>baseOffset\<close> is a \<open>Maybe<int>\<close>: the 64-bit result of \<open>getSExtValue\<close> is narrowed
  to a 32-bit \<open>int\<close> when it is assigned (lines 336 and 351).\<close>

definition narrowToInt :: "int \<Rightarrow> int" where
  "narrowToInt n = sint (word_of_int n :: 32 word)"

definition baseOffsetOf :: "StackExt \<Rightarrow> Body \<Rightarrow> SymbolicTree \<Rightarrow> int option" where
  "baseOffsetOf X b root =
     (case nodeValue root of
        Some (ConstantInt w k) \<Rightarrow> Some (narrowToInt (getSExtValue w k))
      | _ \<Rightarrow>
          (case List.map_filter (addOfLoadAndConst b) (getLevelOrder root) of
             [] \<Rightarrow> None
           | (p, w, k) # rest \<Rightarrow>
               if isRegister X p then Some (narrowToInt (getSExtValue w k)) else None))"

definition getDebugStackVariable :: "StackExt \<Rightarrow> Body \<Rightarrow> SymbolicTree \<Rightarrow> DebugVar option" where
  "getDebugStackVariable X b root =
     (case dbgf X of
        None \<Rightarrow> None
      | Some None \<Rightarrow> None
      | Some (Some locals) \<Rightarrow>
          (case baseOffsetOf X b root of
             None \<Rightarrow> None
           | Some off \<Rightarrow> find (\<lambda>var. dv_isStack var \<and> dv_stackOffset var = off) locals))"

definition hasStackPointer :: "StackExt \<Rightarrow> SymbolicTree \<Rightarrow> bool" where
  "hasStackPointer X root =
     list_ex (\<lambda>n. case nodeValue n of None \<Rightarrow> False | Some v \<Rightarrow> isStackPointerRegister X v)
             (getPostOrder root)"

fun storesValue :: "Instruction \<Rightarrow> Value \<Rightarrow> bool" where
  "storesValue (StoreInst i v p) val = (v = val)"
| "storesValue i val = False"

text \<open>\<open>StackAnalysis::handleInstruction\<close> (stack.cpp, lines 226 to 313).\<close>

definition handleInstruction ::
    "StackExt \<Rightarrow> Instruction \<Rightarrow> Value \<Rightarrow> Type \<Rightarrow> PassState \<Rightarrow> bool \<times> PassState" where
  "handleInstruction X inst val type st =
     (let root = mkTree X val (val2val st)
      in if \<not> isVal2ValMapUsed root \<and> \<not> hasStackPointer X root then (False, st)
         else
           let debugSv0 = getDebugStackVariable X (body (fnc st)) root;
               root' = simplifyNode X root;
               debugSv = (if debugSv0 = None then getDebugStackVariable X (body (fnc st)) root'
                          else debugSv0)
           in (case nodeValue root' of
                 Some (ConstantInt w k) \<Rightarrow>
                   let v2v = (if storesValue inst val
                              then (val2val st)(instValue inst \<mapsto> ConstantInt w k)
                              else val2val st);
                       name = (case debugSv of None \<Rightarrow> [] | Some var \<Rightarrow> dv_name var);
                       t = (case debugSv of None \<Rightarrow> type | Some var \<Rightarrow> dv_type var)
                   in (case getStackVariable X (fnc st) (getSExtValue w k) t name of
                         (a, f') \<Rightarrow>
                           (True,
                            st\<lparr>fnc := f',
                              replaceItems := replaceItems st @
                                [\<lparr>ri_inst = instId inst, ri_from = val, ri_to = a\<rparr>],
                              val2val := v2v\<rparr>))
               | _ \<Rightarrow> (False, st)))"

subsection \<open>The pass over a function and over the module\<close>

text \<open>The first loop of \<open>runOnFunction\<close> (lines 93 to 111): the value operand of every
  store that is not an anchor.\<close>

fun phaseA :: "StackExt \<Rightarrow> Instruction list \<Rightarrow> PassState \<Rightarrow> PassState" where
  "phaseA X [] st = st"
| "phaseA X (StoreInst i v p # is) st =
     (if isLlvmToAsmInstruction X (StoreInst i v p) then phaseA X is st
      else phaseA X is (snd (handleInstruction X (StoreInst i v p) v (typeOf v) st)))"
| "phaseA X (x # is) st = phaseA X is st"

definition isBitPointer :: "Value \<Rightarrow> bool" where
  "isBitPointer p = (case getPointerElementType (typeOf p) of None \<Rightarrow> False | Some pt \<Rightarrow> isIntegerTy pt 1)"

text \<open>The second loop (lines 113 to 161): the pointer operand of loads and stores.\<close>

fun phaseB :: "StackExt \<Rightarrow> Instruction list \<Rightarrow> bool \<times> PassState \<Rightarrow> bool \<times> PassState" where
  "phaseB X [] cs = cs"
| "phaseB X (LoadInst i p t # is) cs =
     (if isBitPointer p \<or> isGlobalVariable p then phaseB X is cs
      else (case handleInstruction X (LoadInst i p t) p t (snd cs) of
              (c, st') \<Rightarrow> phaseB X is (fst cs \<or> c, st')))"
| "phaseB X (StoreInst i v p # is) cs =
     (if isLlvmToAsmInstruction X (StoreInst i v p) \<or> isBitPointer p \<or> isGlobalVariable p
      then phaseB X is cs
      else (case handleInstruction X (StoreInst i v p) p (typeOf v) (snd cs) of
              (c, st') \<Rightarrow> phaseB X is (fst cs \<or> c, st')))"
| "phaseB X (x # is) cs = phaseB X is cs"

text \<open>\<open>StackAnalysis::runOnFunction\<close>. The two loops walk the instructions the function
  has when the loop starts; the slots that \<open>getStackVariable\<close> adds meanwhile are
  neither loads nor stores.\<close>

definition runOnFunction :: "StackExt \<Rightarrow> FncState \<Rightarrow> (bool \<times> FncState) option" where
  "runOnFunction X f =
     (let stA = phaseA X (concat (body f)) \<lparr>fnc = f, replaceItems = [], val2val = Map.empty\<rparr>;
          csB = phaseB X (concat (body (fnc stA))) (False, stA)
      in case applyRewrites (replaceItems (snd csB)) (fnc (snd csB)) of
           None \<Rightarrow> None
         | Some f' \<Rightarrow> Some (fst csB, f'))"

text \<open>
  \<open>StackAnalysis::run\<close> (lines 62 to 80). The module is the list of its functions. The
  reaching-definitions analysis is a parameter: run on the module with the
  configuration, it gives the collaborators of the pass for each function (by its
  position in the module). The result carries the trace of what was run.
\<close>

datatype Event = RunReachingDefinitions | RunOnFunction nat

fun runOnFunctions ::
    "(nat \<Rightarrow> StackExt) \<Rightarrow> nat \<Rightarrow> FncState list \<Rightarrow> (bool \<times> FncState list \<times> Event list) option" where
  "runOnFunctions R n [] = Some (False, [], [])"
| "runOnFunctions R n (f # fs) =
     (case runOnFunction (R n) f of
        None \<Rightarrow> None
      | Some (c, f') \<Rightarrow>
          (case runOnFunctions R (Suc n) fs of
             None \<Rightarrow> None
           | Some (c', fs', ev) \<Rightarrow> Some (c \<or> c', f' # fs', RunOnFunction n # ev)))"

definition StackAnalysis_run ::
    "('cfg \<Rightarrow> FncState list \<Rightarrow> nat \<Rightarrow> StackExt) \<Rightarrow> 'cfg option \<Rightarrow> FncState list
      \<Rightarrow> (bool \<times> FncState list \<times> Event list) option" where
  "StackAnalysis_run rda config m =
     (case config of
        None \<Rightarrow> Some (False, m, [])
      | Some c \<Rightarrow>
          (case runOnFunctions (rda c m) 0 m of
             None \<Rightarrow> None
           | Some (changed, m', ev) \<Rightarrow> Some (changed, m', RunReachingDefinitions # ev)))"


section \<open>The decoder (decoder.cpp)\<close>

subsection \<open>Addresses, jump targets and the pseudo-call worklist\<close>

type_synonym addr = "64 word"

text \<open>
  Modelled from the spec: \<open>Address\<close> (retdec/utils/address.h, not among the sources) is
  "a possibly-undefined unsigned integer"; \<open>Address()\<close> and \<open>Address::getUndef\<close> are the
  undefined address. Printed, an address is lower-case hexadecimal, with the prefix
  \<open>0x\<close> for \<open>toHexPrefixString\<close>.
\<close>

datatype Address = Undef | Defined addr

fun isDefined :: "Address \<Rightarrow> bool" where
  "isDefined (Defined a) = True"
| "isDefined Undef = False"

definition isUndefined :: "Address \<Rightarrow> bool" where
  "isUndefined a = (\<not> isDefined a)"

definition hexDigit :: "nat \<Rightarrow> char" where
  "hexDigit d = ''0123456789abcdef'' ! d"

fun hexOfNat :: "nat \<Rightarrow> nat \<Rightarrow> string" where
  "hexOfNat 0 n = []"
| "hexOfNat (Suc k) n =
     (if n < 16 then [hexDigit n] else hexOfNat k (n div 16) @ [hexDigit (n mod 16)])"

text \<open>Sixteen digits are enough for a 64-bit address.\<close>

definition toHexString :: "addr \<Rightarrow> string" where
  "toHexString a = hexOfNat 16 (unat a)"

definition toHexPrefixString :: "addr \<Rightarrow> string" where
  "toHexPrefixString a = ''0x'' @ toHexString a"

datatype eType =
    ENTRY_POINT
  | CONTROL_FLOW_CALL_TARGET
  | CONTROL_FLOW_CALL_AFTER
  | CONTROL_FLOW_BR_TRUE
  | CONTROL_FLOW_BR_FALSE
  | CONTROL_FLOW_RETURN_TARGET

record JumpTarget =
  jt_address :: Address
  jt_type :: eType
  jt_mode :: nat
  jt_fromInst :: "nat option"
  jt_name :: string

text \<open>
  Modelled from the spec: the worklist of jump targets (not among the sources) prefers
  entry points, then lower addresses, then the kinds in the order call target, true
  branch, false branch, after call, return target; among equals the first pushed
  comes first, and a target pushed again with the same address, kind and origin is
  not added.
\<close>

fun kindRank :: "eType \<Rightarrow> nat" where
  "kindRank ENTRY_POINT = 0"
| "kindRank CONTROL_FLOW_CALL_TARGET = 1"
| "kindRank CONTROL_FLOW_BR_TRUE = 2"
| "kindRank CONTROL_FLOW_BR_FALSE = 3"
| "kindRank CONTROL_FLOW_CALL_AFTER = 4"
| "kindRank CONTROL_FLOW_RETURN_TARGET = 5"

definition jtKey :: "JumpTarget \<Rightarrow> nat \<times> nat \<times> nat" where
  "jtKey jt =
     (if jt_type jt = ENTRY_POINT then 0 else 1,
      case jt_address jt of Undef \<Rightarrow> 2 ^ 64 | Defined a \<Rightarrow> unat a,
      kindRank (jt_type jt))"

definition jtBefore :: "JumpTarget \<Rightarrow> JumpTarget \<Rightarrow> bool" where
  "jtBefore x y =
     (case (jtKey x, jtKey y) of
        ((e1, a1, k1), (e2, a2, k2)) \<Rightarrow>
          e1 < e2 \<or> (e1 = e2 \<and> (a1 < a2 \<or> (a1 = a2 \<and> k1 < k2))))"

fun top :: "JumpTarget list \<Rightarrow> JumpTarget option" where
  "top [] = None"
| "top (x # xs) = Some (fold (\<lambda>y best. if jtBefore y best then y else best) xs x)"

definition pop :: "JumpTarget list \<Rightarrow> JumpTarget list" where
  "pop q = (case top q of None \<Rightarrow> [] | Some jt \<Rightarrow> remove1 jt q)"

definition push :: "Address \<Rightarrow> eType \<Rightarrow> nat \<Rightarrow> nat option \<Rightarrow> JumpTarget list \<Rightarrow> JumpTarget list" where
  "push a t m fromI q =
     (if list_ex (\<lambda>jt. jt_address jt = a \<and> jt_type jt = t \<and> jt_fromInst jt = fromI) q then q
      else q @ [\<lparr>jt_address = a, jt_type = t, jt_mode = m, jt_fromInst = fromI, jt_name = []\<rparr>])"

datatype Error = AssertionFailed | NullDereference | InconsistentPatch | OutOfFuel

datatype PseudoKind = PseudoCall | PseudoReturn | PseudoBr | PseudoCondBr

text \<open>
  Modelled from the spec: the pseudo-call worklist (not among the sources) records the
  pseudo calls with the kind of patch expected, and their targets; setting a target
  is idempotent for the same target and fails when called with a different one.
\<close>

record PseudoWorklist =
  pseudoCalls :: "(nat \<times> PseudoKind) list"
  targetFunction :: "nat \<rightharpoonup> nat"
  targetBbTrue :: "nat \<rightharpoonup> nat"
  targetBbFalse :: "nat \<rightharpoonup> nat"

definition addPseudo :: "PseudoKind \<Rightarrow> nat \<Rightarrow> PseudoWorklist \<Rightarrow> PseudoWorklist" where
  "addPseudo k c w = w\<lparr>pseudoCalls := pseudoCalls w @ [(c, k)]\<rparr>"

definition setTarget :: "(nat \<rightharpoonup> nat) \<Rightarrow> nat \<Rightarrow> nat \<Rightarrow> Error + (nat \<rightharpoonup> nat)" where
  "setTarget m c t =
     (case m c of
        None \<Rightarrow> Inr (m(c \<mapsto> t))
      | Some t' \<Rightarrow> if t' = t then Inr m else Inl InconsistentPatch)"

subsection \<open>The state of the decoder and its collaborators\<close>

text \<open>
  The module is the list of its functions; a function has a name and the list of its
  basic blocks, a block the list of its instructions. Functions and blocks are known
  by their identities, as the four index maps of the decoder know them. \<open>nextId\<close> is
  the next unused identity. A range of addresses is kept as the pair given to
  \<open>AddressRange(start, end)\<close>.
\<close>

type_synonym AddressRange = "addr \<times> addr"

record Decoder =
  fncList :: "nat list"
  fncName :: "nat \<Rightarrow> string"
  fncBlocks :: "nat \<Rightarrow> nat list"
  bbName :: "nat \<Rightarrow> string"
  bbInsts :: "nat \<Rightarrow> Instruction list"
  addr2fnc :: "(addr \<times> nat) list"
  fnc2addr :: "nat \<rightharpoonup> addr"
  addr2bb :: "(addr \<times> nat) list"
  bb2addr :: "nat \<rightharpoonup> addr"
  allowedRanges :: "AddressRange list"
  jumpTargets :: "JumpTarget list"
  pseudoWorklist :: PseudoWorklist
  currentMode :: nat
  nextId :: nat

text \<open>
  What one call of \<open>translateOne(bytes.first, bytes.second, addr, irb)\<close> gives: the
  fields of the result that the decoder reads, the instructions emitted at the
  builder's position, and the byte window and the address as the call leaves them
  (the call takes them by reference).
\<close>

record TranslationResultOne =
  tr_failed :: bool
  tr_llvmInsn :: "Instruction option"
  tr_branchCall :: "Instruction option"
  tr_size :: nat
  tr_emitted :: "Instruction list"
  tr_bytes :: "nat list"
  tr_addr :: addr

text \<open>
  The collaborators whose code is not among the sources are parameters: the
  translator and its classification of pseudo calls, the image, and the operations on
  ranges of addresses (which addresses a range holds, its size, its removal from a
  set of ranges). The translator is given the byte window, the address and the next
  unused identity.
\<close>

record DecExt =
  translateOne :: "nat list \<Rightarrow> addr \<Rightarrow> nat \<Rightarrow> TranslationResultOne"
  isCallFunctionCall :: "Instruction option \<Rightarrow> bool"
  isReturnFunctionCall :: "Instruction option \<Rightarrow> bool"
  isBranchFunctionCall :: "Instruction option \<Rightarrow> bool"
  isCondBranchFunctionCall :: "Instruction option \<Rightarrow> bool"
  getRawSegmentData :: "addr \<Rightarrow> nat list option"
  rangeContains :: "AddressRange \<Rightarrow> addr \<Rightarrow> bool"
  rangeSize :: "AddressRange \<Rightarrow> nat"
  rangeRemove :: "AddressRange \<Rightarrow> AddressRange list \<Rightarrow> AddressRange list"

text \<open>
  Modelled from the spec: the store that anchors IR to a machine instruction
  (\<open>AsmInstruction\<close>, not among the sources) is a store of the instruction's address to
  a dedicated global; the address of an IR instruction is that of the last anchor at
  or before it in its block.
\<close>

fun asmAddress :: "Instruction \<Rightarrow> addr option" where
  "asmAddress (StoreInst i (ConstantInt w a) (GlobalVariable n t)) =
     (if n = ''_asm_program_counter'' then Some a else None)"
| "asmAddress i = None"

definition lastAsmAddress :: "Instruction list \<Rightarrow> Address" where
  "lastAsmAddress is =
     (case List.map_filter asmAddress (rev is) of [] \<Rightarrow> Undef | a # rest \<Rightarrow> Defined a)"

subsection \<open>Finding things in the module\<close>

fun firstSome :: "('a \<Rightarrow> 'b option) \<Rightarrow> 'a list \<Rightarrow> 'b option" where
  "firstSome g [] = None"
| "firstSome g (x # xs) = (case g x of Some y \<Rightarrow> Some y | None \<Rightarrow> firstSome g xs)"

fun findIndex :: "('a \<Rightarrow> bool) \<Rightarrow> 'a list \<Rightarrow> nat option" where
  "findIndex P [] = None"
| "findIndex P (x # xs) = (if P x then Some 0 else map_option Suc (findIndex P xs))"

text \<open>The function and the position in its list of a block.\<close>

definition locateBlock :: "Decoder \<Rightarrow> nat \<Rightarrow> (nat \<times> nat) option" where
  "locateBlock s b =
     firstSome (\<lambda>f. map_option (\<lambda>k. (f, k)) (findIndex (\<lambda>x. x = b) (fncBlocks s f))) (fncList s)"

text \<open>The function, the block and the position in the block of the first instruction
  with a property.\<close>

definition locateInst :: "Decoder \<Rightarrow> (Instruction \<Rightarrow> bool) \<Rightarrow> (nat \<times> nat \<times> nat) option" where
  "locateInst s P =
     firstSome (\<lambda>f. firstSome (\<lambda>b. map_option (\<lambda>j. (f, b, j)) (findIndex P (bbInsts s b)))
                              (fncBlocks s f))
               (fncList s)"

definition getParent :: "Decoder \<Rightarrow> nat \<Rightarrow> nat option" where
  "getParent s b = map_option fst (locateBlock s b)"

subsection \<open>Queries on the indices\<close>

definition getFunctionAddress :: "Decoder \<Rightarrow> nat \<Rightarrow> Address" where
  "getFunctionAddress s f = (case fnc2addr s f of None \<Rightarrow> Undef | Some a \<Rightarrow> Defined a)"

text \<open>
  \<open>getFunctionEndAddress\<close> (lines 546 to 559). The argument is a pointer that may be
  null. On null, line 550 builds an address and drops it; control goes on to
  \<open>f->empty()\<close>, a read through the null pointer.
\<close>

definition getFunctionEndAddress :: "Decoder \<Rightarrow> nat option \<Rightarrow> Error + Address" where
  "getFunctionEndAddress s fp =
     (case fp of
        None \<Rightarrow> Inl NullDereference
      | Some f \<Rightarrow>
          if fncBlocks s f = [] \<or> bbInsts s (last (fncBlocks s f)) = []
          then Inr (getFunctionAddress s f)
          else Inr (lastAsmAddress (bbInsts s (last (fncBlocks s f)))))"

definition getFunction :: "Decoder \<Rightarrow> addr \<Rightarrow> nat option" where
  "getFunction s a = map_of (addr2fnc s) a"

text \<open>
  \<open>getFunctionBeforeAddress\<close> and \<open>getBasicBlockBeforeAddress\<close>: the entry before the
  first one whose key is greater than \<open>a\<close>, that is, the entry of the greatest key
  that is at most \<open>a\<close>.
\<close>

definition beforeOrAt :: "(addr \<times> nat) list \<Rightarrow> addr \<Rightarrow> nat option" where
  "beforeOrAt m a =
     (case filter (\<lambda>kv. fst kv \<le> a) m of
        [] \<Rightarrow> None
      | kv # kvs \<Rightarrow> Some (snd (fold (\<lambda>x best. if fst best < fst x then x else best) kvs kv)))"

definition getFunctionBeforeAddress :: "Decoder \<Rightarrow> addr \<Rightarrow> nat option" where
  "getFunctionBeforeAddress s a = beforeOrAt (addr2fnc s) a"

definition addressLess :: "addr \<Rightarrow> Address \<Rightarrow> bool" where
  "addressLess a e = (case e of Undef \<Rightarrow> False | Defined x \<Rightarrow> a < x)"

definition getFunctionContainingAddress :: "Decoder \<Rightarrow> addr \<Rightarrow> Error + nat option" where
  "getFunctionContainingAddress s a =
     (let f = getFunctionBeforeAddress s a
      in case getFunctionEndAddress s f of
           Inl err \<Rightarrow> Inl err
         | Inr e \<Rightarrow> Inr (if addressLess a e then f else None))"

definition getBasicBlockAddress :: "Decoder \<Rightarrow> nat \<Rightarrow> Address" where
  "getBasicBlockAddress s b = (case bb2addr s b of None \<Rightarrow> Undef | Some a \<Rightarrow> Defined a)"

text \<open>\<open>getBasicBlockEndAddress\<close> (lines 684 to 697), with the same null path.\<close>

definition getBasicBlockEndAddress :: "Decoder \<Rightarrow> nat option \<Rightarrow> Error + Address" where
  "getBasicBlockEndAddress s bp =
     (case bp of
        None \<Rightarrow> Inl NullDereference
      | Some b \<Rightarrow>
          if bbInsts s b = [] then Inr (getBasicBlockAddress s b)
          else Inr (lastAsmAddress (bbInsts s b)))"

definition getBasicBlock :: "Decoder \<Rightarrow> addr \<Rightarrow> nat option" where
  "getBasicBlock s a = map_of (addr2bb s) a"

definition getBasicBlockBeforeAddress :: "Decoder \<Rightarrow> addr \<Rightarrow> nat option" where
  "getBasicBlockBeforeAddress s a = beforeOrAt (addr2bb s) a"

definition getBasicBlockContainingAddress :: "Decoder \<Rightarrow> addr \<Rightarrow> Error + nat option" where
  "getBasicBlockContainingAddress s a =
     (let b = getBasicBlockBeforeAddress s a
      in case getBasicBlockEndAddress s b of
           Inl err \<Rightarrow> Inl err
         | Inr e \<Rightarrow> Inr (if addressLess a e then b else None))"

text \<open>\<open>getJumpTarget\<close> (lines 519 to 526).\<close>

fun getJumpTarget :: "Value \<Rightarrow> Address" where
  "getJumpTarget (ConstantInt w k) = Defined (getZExtValue w k)"
| "getJumpTarget v = Undef"

subsection \<open>Creating blocks and functions\<close>

definition insertAt :: "nat \<Rightarrow> 'a \<Rightarrow> 'a list \<Rightarrow> 'a list" where
  "insertAt k x xs = take k xs @ x # drop k xs"

definition insertAfterL :: "nat \<Rightarrow> nat \<Rightarrow> nat list \<Rightarrow> nat list" where
  "insertAfterL g x xs =
     (case findIndex (\<lambda>y. y = g) xs of None \<Rightarrow> xs @ [x] | Some k \<Rightarrow> insertAt (Suc k) x xs)"

text \<open>
  \<open>createBasicBlock\<close> (lines 757 to 780). \<open>next\<close> is the block after \<open>insertAfter\<close> in the
  list that holds it; \<open>BasicBlock::Create\<close> puts the new block before \<open>next\<close>, or at the
  end of \<open>f\<close> when \<open>next\<close> is null. The block gets its placeholder terminator and is
  entered in both block indices.
\<close>

definition createBasicBlock :: "addr \<Rightarrow> string \<Rightarrow> nat \<Rightarrow> nat option \<Rightarrow> Decoder \<Rightarrow> nat \<times> Decoder" where
  "createBasicBlock a name f insertAfter s =
     (let n = (if name = [] then ''bb_'' @ toHexString a else name);
          b = nextId s;
          next = (case insertAfter of
                    None \<Rightarrow> None
                  | Some x \<Rightarrow>
                      (case locateBlock s x of
                         None \<Rightarrow> None
                       | Some (g, k) \<Rightarrow>
                           if Suc k < length (fncBlocks s g) then Some (g, Suc k) else None));
          blocks' = (case next of
                       None \<Rightarrow> (fncBlocks s)(f := fncBlocks s f @ [b])
                     | Some (g, k) \<Rightarrow> (fncBlocks s)(g := insertAt k b (fncBlocks s g)))
      in (b, s\<lparr>fncBlocks := blocks',
               bbName := (bbName s)(b := n),
               bbInsts := (bbInsts s)(b := [ReturnInst (Suc b)]),
               addr2bb := AList.update a b (addr2bb s),
               bb2addr := (bb2addr s)(b \<mapsto> a),
               nextId := b + 2\<rparr>))"

text \<open>
  \<open>createFunction\<close> (lines 616 to 664). With an empty function list the function is
  created inside the module and then inserted into the list once more at line 652;
  LLVM's lists assert that a value is not in a container when it is inserted, so that
  path ends in a failed assertion. The two assertions of lines 657 and 658 come after
  the creation of the entry block, as in the code; the address is defined here by
  its type.
\<close>

definition createFunction :: "addr \<Rightarrow> string \<Rightarrow> Decoder \<Rightarrow> Error + (nat \<times> Decoder)" where
  "createFunction a name s =
     (let n = (if name = [] then ''function_'' @ toHexString a else name);
          f = nextId s
      in if fncList s = [] then Inl AssertionFailed
         else
           let fl' = (case getFunctionBeforeAddress s a of
                        Some g \<Rightarrow> insertAfterL g f (fncList s)
                      | None \<Rightarrow> f # fncList s);
               s1 = s\<lparr>fncList := fl',
                      fncName := (fncName s)(f := n),
                      fncBlocks := (fncBlocks s)(f := []),
                      nextId := Suc f\<rparr>;
               s2 = snd (createBasicBlock a [] f None s1)
           in if map_of (addr2fnc s2) a \<noteq> None then Inl AssertionFailed
              else Inr (f, s2\<lparr>addr2fnc := AList.update a f (addr2fnc s2),
                              fnc2addr := (fnc2addr s2)(f \<mapsto> a)\<rparr>))"

subsection \<open>Splitting at an instruction that is already there\<close>

text \<open>\<open>AsmInstruction(_module, address)\<close>: the anchor of the machine instruction at the
  address, if the module has one.\<close>

definition asmInstructionAt :: "Decoder \<Rightarrow> addr \<Rightarrow> (nat \<times> nat \<times> nat) option" where
  "asmInstructionAt s a = locateInst s (\<lambda>i. asmAddress i = Some a)"

definition positionIn :: "nat \<Rightarrow> nat list \<Rightarrow> nat" where
  "positionIn b xs = (case findIndex (\<lambda>x. x = b) xs of None \<Rightarrow> length xs | Some k \<Rightarrow> k)"

text \<open>
  Modelled from the spec: \<open>AsmInstruction::makeStart\<close> (not among the sources) "splits
  the enclosing block there (making a new block start)": the instructions from the
  anchor on go to a new block placed after the old one, which ends in a branch to it
  (LLVM's \<open>splitBasicBlock\<close>). The argument is the place of the anchor: function,
  block, position.
\<close>

definition makeStart :: "nat \<times> nat \<times> nat \<Rightarrow> Decoder \<Rightarrow> nat \<times> Decoder" where
  "makeStart at s =
     (case at of (f, b, j) \<Rightarrow>
        let newBb = nextId s;
            k = positionIn b (fncBlocks s f)
        in (newBb,
            s\<lparr>fncBlocks := (fncBlocks s)(f := insertAt (Suc k) newBb (fncBlocks s f)),
              bbInsts := (bbInsts s)(b := take j (bbInsts s b) @ [BranchInst (Suc newBb) [newBb]],
                                     newBb := drop j (bbInsts s b)),
              nextId := newBb + 2\<rparr>))"

text \<open>
  Modelled from the spec: \<open>splitFunctionOn\<close> (not among the sources) "splits the
  enclosing function at that instruction: the suffix becomes a new function" with the
  given name. The block is split at the instruction as \<open>makeStart\<close> does; the new block
  and the blocks after it make the new function, placed after the old one in the
  module; the old block ends in a placeholder return.
\<close>

definition splitFunctionOn :: "nat \<times> nat \<times> nat \<Rightarrow> string \<Rightarrow> Decoder \<Rightarrow> nat \<times> Decoder" where
  "splitFunctionOn at n s =
     (case at of (f, b, j) \<Rightarrow>
        let newFnc = nextId s;
            newBb = Suc newFnc;
            k = positionIn b (fncBlocks s f)
        in (newFnc,
            s\<lparr>fncList := insertAfterL f newFnc (fncList s),
              fncName := (fncName s)(newFnc := n),
              fncBlocks := (fncBlocks s)(f := take (Suc k) (fncBlocks s f),
                                         newFnc := newBb # drop (Suc k) (fncBlocks s f)),
              bbInsts := (bbInsts s)(b := take j (bbInsts s b) @ [ReturnInst (Suc newBb)],
                                     newBb := drop j (bbInsts s b)),
              nextId := newFnc + 3\<rparr>))"

subsection \<open>Patching pseudo calls\<close>

text \<open>The pseudo call is \<open>llvm::cast<llvm::CallInst>(jt.fromInst)\<close>, which asserts that
  the pointer is not null.\<close>

definition setTargetFunction :: "nat option \<Rightarrow> nat \<Rightarrow> Decoder \<Rightarrow> Error + Decoder" where
  "setTargetFunction c f s =
     (case c of
        None \<Rightarrow> Inl AssertionFailed
      | Some i \<Rightarrow>
          (case setTarget (targetFunction (pseudoWorklist s)) i f of
             Inl e \<Rightarrow> Inl e
           | Inr m \<Rightarrow> Inr (s\<lparr>pseudoWorklist := (pseudoWorklist s)\<lparr>targetFunction := m\<rparr>\<rparr>)))"

definition setTargetBbTrue :: "nat option \<Rightarrow> nat \<Rightarrow> Decoder \<Rightarrow> Error + Decoder" where
  "setTargetBbTrue c b s =
     (case c of
        None \<Rightarrow> Inl AssertionFailed
      | Some i \<Rightarrow>
          (case setTarget (targetBbTrue (pseudoWorklist s)) i b of
             Inl e \<Rightarrow> Inl e
           | Inr m \<Rightarrow> Inr (s\<lparr>pseudoWorklist := (pseudoWorklist s)\<lparr>targetBbTrue := m\<rparr>\<rparr>)))"

definition setTargetBbFalse :: "nat option \<Rightarrow> nat \<Rightarrow> Decoder \<Rightarrow> Error + Decoder" where
  "setTargetBbFalse c b s =
     (case c of
        None \<Rightarrow> Inl AssertionFailed
      | Some i \<Rightarrow>
          (case setTarget (targetBbFalse (pseudoWorklist s)) i b of
             Inl e \<Rightarrow> Inl e
           | Inr m \<Rightarrow> Inr (s\<lparr>pseudoWorklist := (pseudoWorklist s)\<lparr>targetBbFalse := m\<rparr>\<rparr>)))"

text \<open>\<open>jt.fromInst->getFunction()\<close> and \<open>jt.fromInst->getParent()\<close>, through a pointer
  that may be null.\<close>

definition locateFrom :: "Decoder \<Rightarrow> nat option \<Rightarrow> Error + (nat \<times> nat \<times> nat)" where
  "locateFrom s c =
     (case c of
        None \<Rightarrow> Inl NullDereference
      | Some i \<Rightarrow>
          (case locateInst s (\<lambda>x. instId x = i) of
             None \<Rightarrow> Inl NullDereference
           | Some at \<Rightarrow> Inr at))"

subsection \<open>A jump target outside the allowed ranges\<close>

definition indexFunction :: "addr \<Rightarrow> nat \<Rightarrow> Decoder \<Rightarrow> Decoder" where
  "indexFunction a f s = s\<lparr>addr2fnc := AList.update a f (addr2fnc s), fnc2addr := (fnc2addr s)(f \<mapsto> a)\<rparr>"

definition indexBasicBlock :: "addr \<Rightarrow> nat \<Rightarrow> Decoder \<Rightarrow> Decoder" where
  "indexBasicBlock a b s = s\<lparr>addr2bb := AList.update a b (addr2bb s), bb2addr := (bb2addr s)(b \<mapsto> a)\<rparr>"

text \<open>
  The branch \<open>range == nullptr\<close> of \<open>decodeJumpTarget\<close> (lines 137 to 230). A failed
  \<open>assert(false)\<close> is fatal. In the last case of a call target (lines 210 to 221) the
  function is split and the new function and its entry block are indexed; control
  then leaves the chain of conditions and returns at line 229.
\<close>

definition recover :: "JumpTarget \<Rightarrow> addr \<Rightarrow> Decoder \<Rightarrow> Error + Decoder" where
  "recover jt a s =
     (case jt_type jt of
        CONTROL_FLOW_CALL_AFTER \<Rightarrow> Inl AssertionFailed
      | CONTROL_FLOW_BR_FALSE \<Rightarrow>
          (case locateFrom s (jt_fromInst jt) of
             Inl e \<Rightarrow> Inl e
           | Inr (fromFnc, fromBb, j) \<Rightarrow>
               (case getBasicBlock s a of
                  None \<Rightarrow> Inl AssertionFailed
                | Some targetBb \<Rightarrow>
                    if getParent s targetBb = Some fromFnc
                    then setTargetBbFalse (jt_fromInst jt) targetBb s
                    else Inl AssertionFailed))
      | CONTROL_FLOW_BR_TRUE \<Rightarrow>
          (case locateFrom s (jt_fromInst jt) of
             Inl e \<Rightarrow> Inl e
           | Inr (fromFnc, fromBb, j) \<Rightarrow>
               (case getBasicBlock s a of
                  None \<Rightarrow>
                    (case asmInstructionAt s a of
                       None \<Rightarrow> Inl AssertionFailed
                     | Some ai \<Rightarrow>
                         if fst ai = fromFnc then
                           (case makeStart ai s of
                              (newBb, s1) \<Rightarrow>
                                setTargetBbTrue (jt_fromInst jt) newBb (indexBasicBlock a newBb s1))
                         else Inl AssertionFailed)
                | Some targetBb \<Rightarrow>
                    if getParent s targetBb = Some fromFnc
                    then setTargetBbTrue (jt_fromInst jt) targetBb s
                    else Inl AssertionFailed))
      | CONTROL_FLOW_CALL_TARGET \<Rightarrow>
          (case getFunction s a of
             Some f \<Rightarrow> setTargetFunction (jt_fromInst jt) f s
           | None \<Rightarrow>
               (case asmInstructionAt s a of
                  None \<Rightarrow> Inl AssertionFailed
                | Some ai \<Rightarrow>
                    (case splitFunctionOn ai (''function_'' @ toHexString a) s of
                       (newFnc, s1) \<Rightarrow>
                         (case fncBlocks s1 newFnc of
                            [] \<Rightarrow> Inl NullDereference
                          | newBb # rest \<Rightarrow>
                              Inr (indexBasicBlock a newBb (indexFunction a newFnc s1))))))
      | _ \<Rightarrow> Inr s)"

subsection \<open>The position of the IR builder\<close>

definition frontInst :: "Decoder \<Rightarrow> nat \<Rightarrow> Error + nat" where
  "frontInst s f =
     (case fncBlocks s f of
        [] \<Rightarrow> Inl NullDereference
      | b # bs \<Rightarrow> (case bbInsts s b of [] \<Rightarrow> Inl NullDereference | i # rest \<Rightarrow> Inr (instId i)))"

fun isTerminator :: "Instruction \<Rightarrow> bool" where
  "isTerminator (ReturnInst i) = True"
| "isTerminator (BranchInst i ss) = True"
| "isTerminator i = False"

definition getTerminator :: "Decoder \<Rightarrow> nat \<Rightarrow> nat option" where
  "getTerminator s b =
     (case bbInsts s b of
        [] \<Rightarrow> None
      | i # rest \<Rightarrow> if isTerminator (last (i # rest)) then Some (instId (last (i # rest))) else None)"

definition builderAtTerminator :: "nat \<Rightarrow> Decoder \<Rightarrow> Error + (nat \<times> Decoder)" where
  "builderAtTerminator b s =
     (case getTerminator s b of None \<Rightarrow> Inl NullDereference | Some p \<Rightarrow> Inr (p, s))"

text \<open>A new function at the address of the jump target, with the builder at the first
  instruction of its entry block; the pseudo call is patched when \<open>patch\<close> is set.\<close>

definition builderInNewFunction :: "JumpTarget \<Rightarrow> addr \<Rightarrow> bool \<Rightarrow> Decoder \<Rightarrow> Error + (nat \<times> Decoder)" where
  "builderInNewFunction jt a patch s =
     (case createFunction a (jt_name jt) s of
        Inl e \<Rightarrow> Inl e
      | Inr (f, s1) \<Rightarrow>
          (case (if patch then setTargetFunction (jt_fromInst jt) f s1 else Inr s1) of
             Inl e \<Rightarrow> Inl e
           | Inr s2 \<Rightarrow>
               (case frontInst s2 f of Inl e \<Rightarrow> Inl e | Inr p \<Rightarrow> Inr (p, s2))))"

text \<open>\<open>getIrBuilder\<close> (lines 281 to 394). The builder is given as the identity of the
  instruction before which it inserts.\<close>

definition getIrBuilder :: "JumpTarget \<Rightarrow> addr \<Rightarrow> Decoder \<Rightarrow> Error + (nat \<times> Decoder)" where
  "getIrBuilder jt a s =
     (if addr2fnc s = [] \<and> jt_type jt = ENTRY_POINT then builderInNewFunction jt a False s
      else case jt_type jt of
        CONTROL_FLOW_CALL_AFTER \<Rightarrow>
          (case locateFrom s (jt_fromInst jt) of
             Inl e \<Rightarrow> Inl e
           | Inr (f, b, j) \<Rightarrow>
               if Suc j < length (bbInsts s b) then Inr (instId (bbInsts s b ! Suc j), s)
               else Inl AssertionFailed)
      | CONTROL_FLOW_BR_FALSE \<Rightarrow>
          (case locateFrom s (jt_fromInst jt) of
             Inl e \<Rightarrow> Inl e
           | Inr (f, b, j) \<Rightarrow>
               (case createBasicBlock a (jt_name jt) f (Some b) s of
                  (bb, s1) \<Rightarrow>
                    (case setTargetBbFalse (jt_fromInst jt) bb s1 of
                       Inl e \<Rightarrow> Inl e
                     | Inr s2 \<Rightarrow> builderAtTerminator bb s2)))
      | CONTROL_FLOW_BR_TRUE \<Rightarrow>
          (case locateFrom s (jt_fromInst jt) of
             Inl e \<Rightarrow> Inl e
           | Inr (fromFnc, fromBb, j) \<Rightarrow>
               (case getFunctionBeforeAddress s a of
                  None \<Rightarrow> builderInNewFunction jt a True s
                | Some targetFnc \<Rightarrow>
                    if targetFnc = fromFnc then
                      (case getBasicBlockBeforeAddress s a of
                         None \<Rightarrow> Inl AssertionFailed
                       | Some targetBb \<Rightarrow>
                           (case createBasicBlock a (jt_name jt) targetFnc (Some targetBb) s of
                              (newBb, s1) \<Rightarrow>
                                (case setTargetBbTrue (jt_fromInst jt) newBb s1 of
                                   Inl e \<Rightarrow> Inl e
                                 | Inr s2 \<Rightarrow> builderAtTerminator newBb s2)))
                    else if getFunctionAddress s targetFnc = Defined a then Inl AssertionFailed
                    else
                      (case getFunctionContainingAddress s a of
                         Inl e \<Rightarrow> Inl e
                       | Inr (Some contFnc) \<Rightarrow> Inl AssertionFailed
                       | Inr None \<Rightarrow> builderInNewFunction jt a True s)))
      | CONTROL_FLOW_CALL_TARGET \<Rightarrow>
          (if getFunction s a \<noteq> None then Inl AssertionFailed
           else
             (case getFunctionContainingAddress s a of
                Inl e \<Rightarrow> Inl e
              | Inr (Some contFnc) \<Rightarrow> Inl AssertionFailed
              | Inr None \<Rightarrow> builderInNewFunction jt a True s))
      | _ \<Rightarrow> Inl AssertionFailed)"

subsection \<open>Jump targets from a translated instruction\<close>

text \<open>\<open>tr.branchCall->getArgOperand(k)\<close>, with the identity of the pseudo call.\<close>

fun getArgOperand :: "Instruction option \<Rightarrow> nat \<Rightarrow> Error + (nat \<times> Value)" where
  "getArgOperand None k = Inl NullDereference"
| "getArgOperand (Some (CallInst i n args)) k =
     (if k < length args then Inr (i, args ! k) else Inl AssertionFailed)"
| "getArgOperand (Some x) k = Inl AssertionFailed"

text \<open>Modelled from the spec: the test of an address as a condition in
  \<open>if (auto t = getJumpTarget(...)) _jumpTargets.push(t, ...)\<close> (address.h, not among the
  sources) is "the argument folds to a constant address", so the target is pushed when
  its address is defined.\<close>

definition pushIfDefined :: "Address \<Rightarrow> eType \<Rightarrow> nat \<Rightarrow> Decoder \<Rightarrow> Decoder" where
  "pushIfDefined t ty c s =
     (if isDefined t then s\<lparr>jumpTargets := push t ty (currentMode s) (Some c) (jumpTargets s)\<rparr>
      else s)"

definition pushTarget :: "addr \<Rightarrow> eType \<Rightarrow> nat \<Rightarrow> Decoder \<Rightarrow> Decoder" where
  "pushTarget a ty c s =
     s\<lparr>jumpTargets := push (Defined a) ty (currentMode s) (Some c) (jumpTargets s)\<rparr>"

definition addPseudoTo :: "PseudoKind \<Rightarrow> nat \<Rightarrow> Decoder \<Rightarrow> Decoder" where
  "addPseudoTo k c s = s\<lparr>pseudoWorklist := addPseudo k c (pseudoWorklist s)\<rparr>"

text \<open>\<open>getJumpTargetsFromInstruction\<close> (lines 399 to 506); \<open>a\<close> is \<open>ai.getAddress()\<close>.\<close>

definition getJumpTargetsFromInstruction ::
    "DecExt \<Rightarrow> addr \<Rightarrow> TranslationResultOne \<Rightarrow> Decoder \<Rightarrow> Error + (bool \<times> Decoder)" where
  "getJumpTargetsFromInstruction X a tr s =
     (let nextAddr = a + of_nat (tr_size tr);
          bc = tr_branchCall tr
      in if isCallFunctionCall X bc then
           (case getArgOperand bc 0 of
              Inl e \<Rightarrow> Inl e
            | Inr (c, v) \<Rightarrow>
                Inr (True,
                     addPseudoTo PseudoCall c
                       (pushTarget nextAddr CONTROL_FLOW_CALL_AFTER c
                          (pushIfDefined (getJumpTarget v) CONTROL_FLOW_CALL_TARGET c s))))
         else if isReturnFunctionCall X bc then
           (case getArgOperand bc 0 of
              Inl e \<Rightarrow> Inl e
            | Inr (c, v) \<Rightarrow>
                Inr (True,
                     addPseudoTo PseudoReturn c
                       (pushIfDefined (getJumpTarget v) CONTROL_FLOW_RETURN_TARGET c s)))
         else if isBranchFunctionCall X bc then
           (case getArgOperand bc 0 of
              Inl e \<Rightarrow> Inl e
            | Inr (c, v) \<Rightarrow>
                Inr (True,
                     addPseudoTo PseudoBr c
                       (pushIfDefined (getJumpTarget v) CONTROL_FLOW_BR_TRUE c s)))
         else if isCondBranchFunctionCall X bc then
           (case getArgOperand bc 1 of
              Inl e \<Rightarrow> Inl e
            | Inr (c, v) \<Rightarrow>
                Inr (True,
                     addPseudoTo PseudoCondBr c
                       (pushTarget nextAddr CONTROL_FLOW_BR_FALSE c
                          (pushIfDefined (getJumpTarget v) CONTROL_FLOW_BR_TRUE c s))))
         else Inr (False, s))"

subsection \<open>Decoding a jump target\<close>

fun insertListBefore :: "nat \<Rightarrow> Instruction list \<Rightarrow> Instruction list \<Rightarrow> Instruction list" where
  "insertListBefore pos es [] = []"
| "insertListBefore pos es (x # xs) =
     (if instId x = pos then es @ x # xs else x # insertListBefore pos es xs)"

definition emit :: "nat \<Rightarrow> Instruction list \<Rightarrow> Decoder \<Rightarrow> Decoder" where
  "emit pos es s =
     s\<lparr>bbInsts := (\<lambda>b. insertListBefore pos es (bbInsts s b)),
       nextId := nextId s + length es\<rparr>"

text \<open>
  The loop of lines 258 to 272. Each turn translates one instruction at the builder's
  position; the loop ends when the translation fails, gives no anchor, or the
  instruction ends the block. The result is the address as the last call of
  \<open>translateOne\<close> left it, with the state. The translator is a parameter, so the
  loop has fuel: \<open>OutOfFuel\<close> stands for a loop that goes on. (The map from IR to
  Capstone instructions, written at line 262, is not read by the decoder and is left
  out.)
\<close>

fun decodeLoop :: "DecExt \<Rightarrow> nat \<Rightarrow> nat list \<Rightarrow> addr \<Rightarrow> nat \<Rightarrow> Decoder \<Rightarrow> Error + (addr \<times> Decoder)" where
  "decodeLoop X 0 bytes a pos s = Inl OutOfFuel"
| "decodeLoop X (Suc n) bytes a pos s =
     (let res = translateOne X bytes a (nextId s);
          s1 = emit pos (tr_emitted res) s
      in case tr_llvmInsn res of
           None \<Rightarrow> Inr (tr_addr res, s1)
         | Some li \<Rightarrow>
             (case asmAddress li of
                None \<Rightarrow> Inr (tr_addr res, s1)
              | Some ia \<Rightarrow>
                  if tr_failed res then Inr (tr_addr res, s1)
                  else
                    (case getJumpTargetsFromInstruction X ia res s1 of
                       Inl e \<Rightarrow> Inl e
                     | Inr (bbEnd, s2) \<Rightarrow>
                         if bbEnd then Inr (tr_addr res, s2)
                         else decodeLoop X n (tr_bytes res) (tr_addr res) pos s2)))"

text \<open>Lines 274 and 275: the range handed to \<open>_allowedRanges.remove\<close>.\<close>

definition decodedRange :: "addr \<Rightarrow> addr \<Rightarrow> AddressRange" where
  "decodedRange start a = (start, if start < a then a - 1 else start)"

text \<open>\<open>decodeJumpTarget\<close> (lines 125 to 279).\<close>

definition decodeJumpTarget :: "DecExt \<Rightarrow> nat \<Rightarrow> JumpTarget \<Rightarrow> Decoder \<Rightarrow> Error + Decoder" where
  "decodeJumpTarget X fuel jt s =
     (case jt_address jt of
        Undef \<Rightarrow> Inr s
      | Defined start \<Rightarrow>
          (case find (\<lambda>r. rangeContains X r start) (allowedRanges s) of
             None \<Rightarrow> recover jt start s
           | Some rng \<Rightarrow>
               (case getRawSegmentData X start of
                  None \<Rightarrow> Inr s
                | Some bytes \<Rightarrow>
                    (case getIrBuilder jt start s of
                       Inl e \<Rightarrow> Inl e
                     | Inr (pos, s1) \<Rightarrow>
                         (case decodeLoop X fuel (take (rangeSize X rng) bytes) start pos s1 of
                            Inl e \<Rightarrow> Inl e
                          | Inr (a, s2) \<Rightarrow>
                              Inr (s2\<lparr>allowedRanges :=
                                        rangeRemove X (decodedRange start a) (allowedRanges s2)\<rparr>))))))"

text \<open>\<open>decode\<close> (lines 111 to 123), with fuel for the worklist loop.\<close>

fun decode :: "DecExt \<Rightarrow> nat \<Rightarrow> nat \<Rightarrow> Decoder \<Rightarrow> Error + Decoder" where
  "decode X 0 k s = (if jumpTargets s = [] then Inr s else Inl OutOfFuel)"
| "decode X (Suc n) k s =
     (case top (jumpTargets s) of
        None \<Rightarrow> Inr s
      | Some jt \<Rightarrow>
          (case decodeJumpTarget X k jt (s\<lparr>jumpTargets := pop (jumpTargets s)\<rparr>) of
             Inl e \<Rightarrow> Inl e
           | Inr s' \<Rightarrow> decode X n k s'))"

subsection \<open>The control-flow dump\<close>

datatype Json = JString string | JArray "Json list" | JObject "(string \<times> Json) list"

fun mapE :: "('a \<Rightarrow> Error + 'b) \<Rightarrow> 'a list \<Rightarrow> Error + 'b list" where
  "mapE g [] = Inr []"
| "mapE g (x # xs) =
     (case g x of
        Inl e \<Rightarrow> Inl e
      | Inr y \<Rightarrow> (case mapE g xs of Inl e \<Rightarrow> Inl e | Inr ys \<Rightarrow> Inr (y # ys)))"

text \<open>The successors of a block are those of its terminator.\<close>

definition successors :: "Decoder \<Rightarrow> nat \<Rightarrow> nat list" where
  "successors s b =
     (case bbInsts s b of
        [] \<Rightarrow> []
      | i # rest \<Rightarrow> (case last (i # rest) of BranchInst t ss \<Rightarrow> ss | x \<Rightarrow> []))"

text \<open>Lines 835 to 842: from a successor back through the blocks before it (\<open>getPrevNode\<close>)
  to the first one that has an address; \<open>assert(succ)\<close> fails when there is none.\<close>

fun walkBack :: "Decoder \<Rightarrow> nat list \<Rightarrow> Error + addr" where
  "walkBack s [] = Inl AssertionFailed"
| "walkBack s (b # bs) = (case bb2addr s b of Some a \<Rightarrow> Inr a | None \<Rightarrow> walkBack s bs)"

definition succAddress :: "Decoder \<Rightarrow> nat \<Rightarrow> Error + addr" where
  "succAddress s succ =
     (case bb2addr s succ of
        Some a \<Rightarrow> Inr a
      | None \<Rightarrow>
          (case locateBlock s succ of
             None \<Rightarrow> Inl AssertionFailed
           | Some (f, k) \<Rightarrow> walkBack s (rev (take k (fncBlocks s f)))))"

definition dumpBb :: "Decoder \<Rightarrow> nat \<Rightarrow> Error + Json list" where
  "dumpBb s b =
     (case (getBasicBlockAddress s b, getBasicBlockEndAddress s (Some b)) of
        (Defined start, Inr (Defined e)) \<Rightarrow>
          (case mapE (succAddress s) (successors s b) of
             Inl err \<Rightarrow> Inl err
           | Inr succs \<Rightarrow>
               Inr [JObject [(''address'', JString (toHexPrefixString start)),
                             (''address_end'', JString (toHexPrefixString e)),
                             (''succs'', JArray (map (\<lambda>a. JString (toHexPrefixString a)) succs))]])
      | (x, Inl err) \<Rightarrow> Inl err
      | _ \<Rightarrow> Inr [])"

definition dumpFnc :: "Decoder \<Rightarrow> nat \<Rightarrow> Error + Json list" where
  "dumpFnc s f =
     (case (getFunctionAddress s f, getFunctionEndAddress s (Some f)) of
        (Defined start, Inr (Defined e)) \<Rightarrow>
          (case mapE (dumpBb s) (fncBlocks s f) of
             Inl err \<Rightarrow> Inl err
           | Inr bbs \<Rightarrow>
               Inr [JObject [(''address'', JString (toHexPrefixString start)),
                             (''address_end'', JString (toHexPrefixString e)),
                             (''bbs'', JArray (concat bbs)),
                             (''code_refs'', JArray [])]])
      | (x, Inl err) \<Rightarrow> Inl err
      | _ \<Rightarrow> Inr [])"

text \<open>
  \<open>dumpControFlowToJson\<close> (lines 793 to 864): the JSON value handed to the writer. The
  writer (jsoncpp, with the fixed settings of lines 857 to 859) and the file it writes
  to are outside the sources; the bytes written are the writer's image of this value.
\<close>

definition dumpControFlowToJson :: "Decoder \<Rightarrow> Error + Json" where
  "dumpControFlowToJson s =
     (case mapE (dumpFnc s) (fncList s) of
        Inl err \<Rightarrow> Inl err
      | Inr fs \<Rightarrow> Inr (JArray (concat fs)))"

subsection \<open>The pass\<close>

text \<open>
  How a call of \<open>Decoder::run\<close> ends: it returns a boolean, the process exits with a
  status, or a fatal error stops it.
\<close>

datatype Outcome = Returned bool | Exited int | Aborted Error

text \<open>
  \<open>Decoder::run\<close> (lines 80 to 109). The four initialisations (translator,
  environment, ranges, jump targets) are not among the sources; together they are the
  parameter \<open>init\<close>, which gives the collaborators and the initial state from the
  configuration and the image. After \<open>decode\<close> the module and the control flow are
  dumped and line 107 calls \<open>exit(1)\<close>. The result carries the JSON written, if any.
\<close>

definition Decoder_run ::
    "('cfg \<Rightarrow> 'img \<Rightarrow> Decoder \<Rightarrow> DecExt \<times> Decoder) \<Rightarrow> nat \<Rightarrow> 'cfg option \<Rightarrow> 'img option \<Rightarrow> Decoder
      \<Rightarrow> Outcome \<times> Json option" where
  "Decoder_run init fuel config img s =
     (case (config, img) of
        (Some c, Some i) \<Rightarrow>
          (case init c i s of
             (X, s1) \<Rightarrow>
               (case decode X fuel fuel s1 of
                  Inl e \<Rightarrow> (Aborted e, None)
                | Inr s2 \<Rightarrow>
                    (case dumpControFlowToJson s2 of
                       Inl e \<Rightarrow> (Aborted e, None)
                     | Inr j \<Rightarrow> (Exited 1, Some j))))
      | _ \<Rightarrow> (Returned False, None))"

section \<open>Examples and notions used in the properties\<close>

text \<open>A function with one store of the constant 5 through the pointer computed by
  instruction 0, and the deferred rewrite of that pointer to a 32-bit slot.\<close>

definition exFnc :: FncState where
  "exFnc = \<lparr>body = [[StoreInst 1 (ConstantInt 32 5) (InstValue 0 (PointerTy (IntegerTy 32)))]],
            fresh = 2\<rparr>"

definition exItem :: ReplaceItem where
  "exItem = \<lparr>ri_inst = 1, ri_from = InstValue 0 (PointerTy (IntegerTy 32)),
             ri_to = (7, IntegerTy 32)\<rparr>"

text \<open>Collaborators for the examples: the tree over a value is a leaf (as it is for a
  constant), simplification changes nothing, the stack pointer is the global \<open>esp\<close>,
  there is no debug information, and slots are numbered from the function's next
  unused identity.\<close>

definition exSP :: Value where
  "exSP = GlobalVariable ''esp'' (IntegerTy 32)"

definition exLeafExt :: StackExt where
  "exLeafExt = \<lparr>mkTree = (\<lambda>v m. SymbolicTree (Some v) [] False),
                simplifyNode = (\<lambda>t. t),
                isStackPointerRegister = (\<lambda>v. v = exSP),
                isRegister = (\<lambda>v. v = exSP),
                isLlvmToAsmInstruction = (\<lambda>i. False),
                dbgf = None,
                getStackVariable = (\<lambda>f off t n. ((fresh f, t), f\<lparr>fresh := Suc (fresh f)\<rparr>))\<rparr>"

text \<open>The same, but the tree over a value is the sum of the stack pointer and 8, which
  simplifies to the constant 8.\<close>

definition exSumExt :: StackExt where
  "exSumExt = exLeafExt
     \<lparr>mkTree := (\<lambda>v m. SymbolicTree (Some v)
                    [SymbolicTree (Some exSP) [] False,
                     SymbolicTree (Some (ConstantInt 32 8)) [] False] False),
      simplifyNode := (\<lambda>t. SymbolicTree (Some (ConstantInt 32 8)) [] False)\<rparr>"

definition exStore :: Instruction where
  "exStore = StoreInst 1 (ConstantInt 32 5) (GlobalVariable ''g'' (IntegerTy 32))"

definition exPass :: PassState where
  "exPass = \<lparr>fnc = \<lparr>body = [[exStore]], fresh = 2\<rparr>, replaceItems = [], val2val = Map.empty\<rparr>"

text \<open>
  For the decoder: a toy machine whose instructions are one or two bytes. The byte 144
  is an instruction without control flow, 195 a return, 232 followed by \<open>t\<close> a call
  of the address \<open>0x1000 + t\<close>, and 235 followed by \<open>t\<close> a jump to \<open>0x1000 + t\<close>. An
  image is a list of bytes at \<open>0x1000\<close>. The first image is
  \<open>0x1000: call 0x1003; 0x1002: nop; 0x1003: ret\<close>, the second
  \<open>0x1000: nop; 0x1001: nop; 0x1002: nop; 0x1003: jmp 0x1002; 0x1005: ret\<close>, the third
  \<open>0x1000: nop; 0x1001: nop; 0x1002: call 0x1000; 0x1004: ret\<close>. Ranges of addresses are
  read from their first to their last address.
\<close>

definition closedContains :: "AddressRange \<Rightarrow> addr \<Rightarrow> bool" where
  "closedContains r a = (fst r \<le> a \<and> a \<le> snd r)"

definition closedSize :: "AddressRange \<Rightarrow> nat" where
  "closedSize r = unat (snd r - fst r) + 1"

definition closedCut :: "AddressRange \<Rightarrow> AddressRange \<Rightarrow> AddressRange list" where
  "closedCut r old =
     (if snd old < fst r \<or> snd r < fst old then [old]
      else (if fst old < fst r then [(fst old, fst r - 1)] else []) @
           (if snd r < snd old then [(snd r + 1, snd old)] else []))"

definition closedRemove :: "AddressRange \<Rightarrow> AddressRange list \<Rightarrow> AddressRange list" where
  "closedRemove r rs = concat (map (closedCut r) rs)"

definition exAnchor :: "nat \<Rightarrow> addr \<Rightarrow> Instruction" where
  "exAnchor i a = StoreInst i (ConstantInt 64 a) (GlobalVariable ''_asm_program_counter'' (IntegerTy 64))"

definition exResult :: "nat \<Rightarrow> addr \<Rightarrow> nat \<Rightarrow> Instruction \<Rightarrow> bool \<Rightarrow> nat list \<Rightarrow> TranslationResultOne" where
  "exResult i a n x isPseudo rest =
     \<lparr>tr_failed = False, tr_llvmInsn = Some (exAnchor i a),
      tr_branchCall = (if isPseudo then Some x else None), tr_size = n,
      tr_emitted = [exAnchor i a, x], tr_bytes = rest, tr_addr = a + of_nat n\<rparr>"

definition exFailed :: "nat list \<Rightarrow> addr \<Rightarrow> TranslationResultOne" where
  "exFailed bytes a =
     \<lparr>tr_failed = True, tr_llvmInsn = None, tr_branchCall = None, tr_size = 0,
      tr_emitted = [], tr_bytes = bytes, tr_addr = a\<rparr>"

fun exTranslateOne :: "nat list \<Rightarrow> addr \<Rightarrow> nat \<Rightarrow> TranslationResultOne" where
  "exTranslateOne [] a i = exFailed [] a"
| "exTranslateOne (b # rest) a i =
     (if b = 144 then exResult i a 1 (OtherInst (Suc i) [] VoidTy) False rest
      else if b = 195 then
        exResult i a 1 (CallInst (Suc i) ''__pseudo_return'' [UndefValue (IntegerTy 64)]) True rest
      else if b = 232 then
        (case rest of
           [] \<Rightarrow> exFailed (b # rest) a
         | t # rest' \<Rightarrow>
             exResult i a 2 (CallInst (Suc i) ''__pseudo_call'' [ConstantInt 64 (4096 + of_nat t)])
               True rest')
      else if b = 235 then
        (case rest of
           [] \<Rightarrow> exFailed (b # rest) a
         | t # rest' \<Rightarrow>
             exResult i a 2 (CallInst (Suc i) ''__pseudo_br'' [ConstantInt 64 (4096 + of_nat t)])
               True rest')
      else exFailed (b # rest) a)"

fun exCallee :: "Instruction option \<Rightarrow> string" where
  "exCallee (Some (CallInst i n args)) = n"
| "exCallee x = []"

definition exImage :: "nat list" where
  "exImage = [232, 3, 144, 195]"

definition exImage2 :: "nat list" where
  "exImage2 = [144, 144, 144, 235, 2, 195]"

definition exExtOn :: "nat list \<Rightarrow> DecExt" where
  "exExtOn bytes = \<lparr>translateOne = exTranslateOne,
            isCallFunctionCall = (\<lambda>c. exCallee c = ''__pseudo_call''),
            isReturnFunctionCall = (\<lambda>c. exCallee c = ''__pseudo_return''),
            isBranchFunctionCall = (\<lambda>c. exCallee c = ''__pseudo_br''),
            isCondBranchFunctionCall = (\<lambda>c. exCallee c = ''__pseudo_cond_br''),
            getRawSegmentData = (\<lambda>a. if 4096 \<le> a \<and> unat a - 4096 < length bytes
                                       then Some (drop (unat a - 4096) bytes) else None),
            rangeContains = closedContains,
            rangeSize = closedSize,
            rangeRemove = closedRemove\<rparr>"

definition exExt :: DecExt where
  "exExt = exExtOn exImage"

definition exExt2 :: DecExt where
  "exExt2 = exExtOn exImage2"

definition exImage3 :: "nat list" where
  "exImage3 = [144, 144, 232, 0, 195]"

definition exExt3 :: DecExt where
  "exExt3 = exExtOn exImage3"

text \<open>The decoder before it starts: the module holds one function without an address
  (identity 0, a declaration), the four bytes are allowed, and the worklist holds the
  entry point \<open>0x1000\<close>.\<close>

definition exDecoder :: Decoder where
  "exDecoder = \<lparr>fncList = [0], fncName = (\<lambda>f. []), fncBlocks = (\<lambda>f. []), bbName = (\<lambda>b. []),
      bbInsts = (\<lambda>b. []), addr2fnc = [], fnc2addr = Map.empty, addr2bb = [], bb2addr = Map.empty,
      allowedRanges = [(4096, 4099)],
      jumpTargets = [\<lparr>jt_address = Defined 4096, jt_type = ENTRY_POINT, jt_mode = 0,
                       jt_fromInst = None, jt_name = ''main''\<rparr>],
      pseudoWorklist = \<lparr>pseudoCalls = [], targetFunction = Map.empty, targetBbTrue = Map.empty,
                         targetBbFalse = Map.empty\<rparr>,
      currentMode = 0, nextId = 1\<rparr>"

text \<open>The decoder before it starts on the second image: the six bytes are allowed and
  the entry point is the jump at \<open>0x1003\<close>.\<close>

definition exDecoder2 :: Decoder where
  "exDecoder2 = exDecoder
     \<lparr>allowedRanges := [(4096, 4101)],
      jumpTargets := [\<lparr>jt_address = Defined 4099, jt_type = ENTRY_POINT, jt_mode = 0,
                       jt_fromInst = None, jt_name = ''main''\<rparr>]\<rparr>"

text \<open>The decoder before it starts on the third image: the five bytes are allowed and
  the entry point is the call at \<open>0x1002\<close>.\<close>

definition exDecoder3 :: Decoder where
  "exDecoder3 = exDecoder
     \<lparr>allowedRanges := [(4096, 4100)],
      jumpTargets := [\<lparr>jt_address = Defined 4098, jt_type = ENTRY_POINT, jt_mode = 0,
                       jt_fromInst = None, jt_name = ''main''\<rparr>]\<rparr>"

text \<open>The anchors of the machine instruction at an address, in the whole module.\<close>

definition anchorsAt :: "Decoder \<Rightarrow> addr \<Rightarrow> Instruction list" where
  "anchorsAt s a =
     filter (\<lambda>i. asmAddress i = Some a)
            (concat (map (bbInsts s) (concat (map (fncBlocks s) (fncList s)))))"

definition exEntry :: JumpTarget where
  "exEntry = \<lparr>jt_address = Defined 4096, jt_type = ENTRY_POINT, jt_mode = 0,
              jt_fromInst = None, jt_name = ''main''\<rparr>"

definition exFuel :: nat where
  "exFuel = Suc (Suc (Suc 0))"

text \<open>A decoder with one function of one block at \<open>0x1000\<close>, and the same decoder
  with another worklist, other allowed ranges and another next identity.\<close>

definition exOne :: Decoder where
  "exOne = exDecoder
     \<lparr>fncList := [1, 0],
      fncBlocks := (\<lambda>f. if f = 1 then [2] else []),
      bbInsts := (\<lambda>b. if b = 2 then [exAnchor 4 4096, ReturnInst 3] else []),
      addr2fnc := [(4096, 1)], fnc2addr := [1 \<mapsto> 4096],
      addr2bb := [(4096, 2)], bb2addr := [2 \<mapsto> 4096],
      nextId := 5\<rparr>"

definition exOther :: Decoder where
  "exOther = exOne\<lparr>fncName := (\<lambda>f. ''f''), allowedRanges := [], jumpTargets := [], nextId := 99\<rparr>"

text \<open>For \<open>Decoder::run\<close>: an initialisation that gives the toy collaborators and the
  second of these decoders, whose worklist is empty, whatever the configuration and
  the image are.\<close>

definition exInit :: "unit \<Rightarrow> unit \<Rightarrow> Decoder \<Rightarrow> DecExt \<times> Decoder" where
  "exInit c i s = (exExt, exOther)"

definition exJson :: Json where
  "exJson = JArray
       [JObject
         [(''address'', JString ''0x1000''),
          (''address_end'', JString ''0x1000''),
          (''bbs'',
           JArray
            [JObject
              [(''address'', JString ''0x1000''),
               (''address_end'', JString ''0x1000''),
               (''succs'', JArray [])]]),
          (''code_refs'', JArray [])]]"

text \<open>The addresses of a range read from its first to its last address, and read as
  half-open.\<close>

definition closedAddrs :: "AddressRange \<Rightarrow> addr set" where
  "closedAddrs r = {x. fst r \<le> x \<and> x \<le> snd r}"

definition halfOpenAddrs :: "AddressRange \<Rightarrow> addr set" where
  "halfOpenAddrs r = {x. fst r \<le> x \<and> x < snd r}"

text \<open>The bytes of the control-flow dump, for a writer of JSON values.\<close>

definition writeControlFlow :: "(Json \<Rightarrow> string) \<Rightarrow> Decoder \<Rightarrow> Error + string" where
  "writeControlFlow writer s =
     (case dumpControFlowToJson s of Inl e \<Rightarrow> Inl e | Inr j \<Rightarrow> Inr (writer j))"

text \<open>Two decoders hold the same module: the same functions in the same order, the
  same blocks and instructions (hence successors), and the same addresses of
  functions and blocks.\<close>

definition sameModule :: "Decoder \<Rightarrow> Decoder \<Rightarrow> bool" where
  "sameModule s t =
     (fncList s = fncList t \<and> fncBlocks s = fncBlocks t \<and> bbInsts s = bbInsts t
      \<and> fnc2addr s = fnc2addr t \<and> bb2addr s = bb2addr t)"

text \<open>
  The property of an entry \<open>(a, f)\<close> of the address-to-function index: \<open>f\<close> has a first
  block, and the address of that block in the block-to-address index is \<open>a\<close>. The
  index as a whole has the property when every entry has it.
\<close>

definition firstBlockAt :: "Decoder \<Rightarrow> addr \<times> nat \<Rightarrow> bool" where
  "firstBlockAt s e =
     (case fncBlocks s (snd e) of [] \<Rightarrow> False | b # bs \<Rightarrow> bb2addr s b = Some (fst e))"

definition indexedEntries :: "Decoder \<Rightarrow> bool" where
  "indexedEntries s = list_all (firstBlockAt s) (addr2fnc s)"

text \<open>The invariant behind it also says that the identities in use are below the next
  unused one.\<close>

definition entryOk :: "Decoder \<Rightarrow> addr \<times> nat \<Rightarrow> bool" where
  "entryOk s e =
     (snd e < nextId s \<and>
      (case fncBlocks s (snd e) of [] \<Rightarrow> False | b # bs \<Rightarrow> b < nextId s \<and> bb2addr s b = Some (fst e)))"

definition indexInv :: "Decoder \<Rightarrow> bool" where
  "indexInv s = list_all (entryOk s) (addr2fnc s)"

text \<open>A step keeps what the invariant reads: identities only grow, a function in use
  keeps its first block, and a block in use keeps its address.\<close>

definition frame :: "Decoder \<Rightarrow> Decoder \<Rightarrow> bool" where
  "frame s s' =
     (nextId s \<le> nextId s' \<and>
      (\<forall>f b bs. f < nextId s \<longrightarrow> b < nextId s \<longrightarrow> fncBlocks s f = b # bs \<longrightarrow>
         (\<exists>bs'. fncBlocks s' f = b # bs') \<and> bb2addr s' b = bb2addr s b))"

text \<open>
  The state of the decoder inside the split of a call target (lines 210 to 221), after
  lines 216 and 217 have indexed the new function and before lines 219 and 220 index
  its entry block.
\<close>

definition splitIndexedFunction :: "addr \<Rightarrow> Decoder \<Rightarrow> Decoder option" where
  "splitIndexedFunction a s =
     (case getFunction s a of
        Some f \<Rightarrow> None
      | None \<Rightarrow>
          (case asmInstructionAt s a of
             None \<Rightarrow> None
           | Some ai \<Rightarrow>
               (case splitFunctionOn ai (''function_'' @ toHexString a) s of
                  (newFnc, s1) \<Rightarrow> Some (indexFunction a newFnc s1))))"

text \<open>The states the decoder is in when \<open>decode\<close> tests its loop condition: the state
  at the start and the state after each jump target, up to the end of the worklist,
  a fatal error or the end of the fuel.\<close>

fun decodeStates :: "DecExt \<Rightarrow> nat \<Rightarrow> nat \<Rightarrow> Decoder \<Rightarrow> Decoder list" where
  "decodeStates X 0 k s = [s]"
| "decodeStates X (Suc n) k s =
     s # (case top (jumpTargets s) of
            None \<Rightarrow> []
          | Some jt \<Rightarrow>
              (case decodeJumpTarget X k jt (s\<lparr>jumpTargets := pop (jumpTargets s)\<rparr>) of
                 Inl e \<Rightarrow> []
               | Inr s' \<Rightarrow> decodeStates X n k s'))"

section \<open>Properties of the stack pass\<close>

subsection \<open>Helper lemmas\<close>

lemma handleInstruction_other_key:
  "instValue i \<noteq> key \<Longrightarrow> val2val (snd (handleInstruction X i val ty st)) key = val2val st key"
  by (auto simp: handleInstruction_def Let_def split: option.splits Value.splits prod.splits)

lemma handleInstruction_records:
  assumes "storesValue i val"
    and "isVal2ValMapUsed (mkTree X val (val2val st)) \<or> hasStackPointer X (mkTree X val (val2val st))"
    and "nodeValue (simplifyNode X (mkTree X val (val2val st))) = Some (ConstantInt w k)"
  shows "val2val (snd (handleInstruction X i val ty st)) (instValue i) = Some (ConstantInt w k)"
  using assms
  by (auto simp: handleInstruction_def Let_def split: option.splits Value.splits prod.splits)

lemma phaseA_append: "phaseA X (xs @ ys) st = phaseA X ys (phaseA X xs st)"
  by (induction X xs st rule: phaseA.induct) simp_all

lemma phaseA_other_key:
  "i \<notin> instId ` set xs \<Longrightarrow> val2val (phaseA X xs st) (InstValue i VoidTy) = val2val st (InstValue i VoidTy)"
proof (induction X xs st rule: phaseA.induct)
  case (2 X j v p "is" st)
  have "instValue (StoreInst j v p) \<noteq> InstValue i VoidTy"
    using "2.prems" by (auto simp: instValue_def)
  then show ?case
    using 2 by (simp add: handleInstruction_other_key)
qed simp_all

subsection \<open>The claims\<close>

text \<open>
  C1. In the last phase, for a deferred item whose instruction is a store through the
  item's \<open>from\<close> pointer and whose slot is not of aggregate type, the claim asks for
  exactly one fresh store of the coerced value to the slot. The code (stack.cpp,
  lines 188 to 191) creates the store twice: on the function \<open>exFnc\<close> with the single
  item \<open>exItem\<close>, the original store (identity 1) is erased and two stores to the slot
  (identities 2 and 3) stand in its place.
\<close>

theorem phaseD_scalar_store_issued_twice:
  "applyRewrites [exItem] exFnc =
     Some \<lparr>body = [[StoreInst 2 (ConstantInt 32 5) (InstValue 7 (PointerTy (IntegerTy 32))),
                    StoreInst 3 (ConstantInt 32 5) (InstValue 7 (PointerTy (IntegerTy 32)))]],
           fresh = 4\<rparr>"
  by (simp add: applyRewrites_def applyReplaceItem_def findInst_def exFnc_def exItem_def
      replaceStore_def convertValueToType_def newStoreInst_def insertBefore_def
      getAllocatedType_def slotValue_def eraseFromParent_def)

text \<open>
  C8, as stated: every store that is not an anchor and whose value operand's tree
  simplifies to a constant is recorded in the substitution map. It fails on the store
  of the constant 5: its tree is the leaf 5, which holds no stack pointer and did not
  use the map, so \<open>handleInstruction\<close> returns at line 254, before the map is written.
\<close>

theorem phaseA_constant_without_stack_pointer_not_recorded:
  "\<not> isLlvmToAsmInstruction exLeafExt exStore
   \<and> nodeValue (simplifyNode exLeafExt (mkTree exLeafExt (ConstantInt 32 5) (val2val exPass)))
       = Some (ConstantInt 32 5)
   \<and> val2val (phaseA exLeafExt [exStore] exPass) (instValue exStore) = None"
  by (simp add: exLeafExt_def exStore_def exPass_def handleInstruction_def isVal2ValMapUsed_def
      hasStackPointer_def exSP_def)

text \<open>
  C8, amended: in the first loop, for every store that is not an anchor, if the tree
  over its value operand used the substitution map or holds a stack-pointer register,
  and simplifies to the constant integer \<open>k\<close>, then the substitution map records the
  mapping from that store to \<open>k\<close>. The tree is the one built when the loop reaches the
  store (after the instructions \<open>pre\<close> before it); the instructions \<open>post\<close> after it are
  other instructions.
\<close>

theorem phaseA_records_constant:
  assumes "\<not> isLlvmToAsmInstruction X (StoreInst i v p)"
    and "root = mkTree X v (val2val (phaseA X pre st))"
    and "isVal2ValMapUsed root \<or> hasStackPointer X root"
    and "nodeValue (simplifyNode X root) = Some (ConstantInt w k)"
    and "i \<notin> instId ` set post"
  shows "val2val (phaseA X (pre @ StoreInst i v p # post) st) (instValue (StoreInst i v p))
           = Some (ConstantInt w k)"
proof -
  let ?s = "StoreInst i v p"
  let ?st1 = "phaseA X pre st"
  have rec: "val2val (snd (handleInstruction X ?s v (typeOf v) ?st1)) (instValue ?s)
               = Some (ConstantInt w k)"
    using assms(2-4) by (intro handleInstruction_records) simp_all
  have "phaseA X (pre @ ?s # post) st
          = phaseA X post (snd (handleInstruction X ?s v (typeOf v) ?st1))"
    using assms(1) by (simp add: phaseA_append)
  moreover have "instValue ?s = InstValue i VoidTy"
    by (simp add: instValue_def)
  ultimately show ?thesis
    using rec assms(5) by (simp add: phaseA_other_key)
qed

theorem phaseA_records_constant_witness:
  "val2val (phaseA exSumExt ([] @ StoreInst 1 (InstValue 0 (IntegerTy 32)) (GlobalVariable ''g'' (IntegerTy 32)) # [])
              exPass)
     (instValue (StoreInst 1 (InstValue 0 (IntegerTy 32)) (GlobalVariable ''g'' (IntegerTy 32))))
   = Some (ConstantInt 32 8)"
  by (rule phaseA_records_constant [where root = "mkTree exSumExt (InstValue 0 (IntegerTy 32)) (val2val (phaseA exSumExt [] exPass))"])
     (simp_all add: exSumExt_def exLeafExt_def hasStackPointer_def isVal2ValMapUsed_def exSP_def)

text \<open>
  C10. Without a configuration, \<open>StackAnalysis::run\<close> returns false and leaves the module as it is;
  the trace is empty: the reaching-definitions analysis is not run and no function is
  visited, whatever the analysis and the module are.
\<close>

theorem run_without_config:
  "StackAnalysis_run rda None m = Some (False, m, [])"
  by (simp add: StackAnalysis_run_def)


section \<open>Properties of the decoder\<close>

subsection \<open>Evaluation of the example\<close>

lemmas ex_defs = exDecoder_def exExt_def exExtOn_def exImage_def closedContains_def closedSize_def
  closedRemove_def closedCut_def exAnchor_def exResult_def exFailed_def exFuel_def

lemmas dec_defs = decodeJumpTarget_def getIrBuilder_def builderInNewFunction_def
  createFunction_def createBasicBlock_def frontInst_def emit_def
  getJumpTargetsFromInstruction_def pushIfDefined_def pushTarget_def addPseudoTo_def
  addPseudo_def push_def pop_def jtBefore_def jtKey_def decodedRange_def
  getFunctionBeforeAddress_def beforeOrAt_def recover_def getFunction_def
  asmInstructionAt_def locateInst_def splitFunctionOn_def indexFunction_def
  indexBasicBlock_def positionIn_def insertAfterL_def insertAt_def locateFrom_def
  getZExtValue_def setTargetFunction_def setTarget_def getFunctionContainingAddress_def
  getFunctionEndAddress_def lastAsmAddress_def addressLess_def getFunctionAddress_def
  List.map_filter_def

lemma toHexString_1003: "toHexString 4099 = ''1003''"
  by code_simp

text \<open>
  The run of the decoder on the example: the entry point gives the function \<open>main\<close>
  with the call; the address after the call continues the block up to the return at
  \<open>0x1003\<close>; then the call target \<open>0x1003\<close> lies in no allowed range and in the middle
  of \<open>main\<close>, which is split there.
\<close>

lemma exRun:
  "case decode exExt exFuel exFuel exDecoder of
     Inl e \<Rightarrow> False
   | Inr s \<Rightarrow> fncList s = [1, 10, 0] \<and> fncName s 10 = ''function_1003''
       \<and> fncBlocks s 1 = [2] \<and> fncBlocks s 10 = [11]
       \<and> addr2fnc s = [(4096, 1), (4099, 10)] \<and> fnc2addr s 10 = Some 4099
       \<and> addr2bb s = [(4096, 2), (4099, 11)] \<and> bb2addr s 11 = Some 4099
       \<and> bb2addr s 2 = Some 4096
       \<and> jumpTargets s = [] \<and> allowedRanges s = []
       \<and> pseudoCalls (pseudoWorklist s) = [(5, PseudoCall), (9, PseudoReturn)]
       \<and> targetFunction (pseudoWorklist s) 5 = None"
  by (simp add: ex_defs dec_defs Let_def toHexString_1003)

text \<open>The two other cases of a call target in no allowed range: a function indexed at
  the address is patched in, and an address without instruction is fatal.\<close>

lemma recover_call_target_function:
  "jt_type jt = CONTROL_FLOW_CALL_TARGET \<Longrightarrow> getFunction s a = Some f
    \<Longrightarrow> recover jt a s = setTargetFunction (jt_fromInst jt) f s"
  by (simp add: recover_def)

lemma recover_call_target_nothing:
  "jt_type jt = CONTROL_FLOW_CALL_TARGET \<Longrightarrow> getFunction s a = None
    \<Longrightarrow> asmInstructionAt s a = None \<Longrightarrow> recover jt a s = Inl AssertionFailed"
  by (simp add: recover_def)

lemma setTargetFunction_patches:
  "targetFunction (pseudoWorklist s) c = None
    \<Longrightarrow> (case setTargetFunction (Some c) f s of
           Inl e \<Rightarrow> False
         | Inr s' \<Rightarrow> targetFunction (pseudoWorklist s') c = Some f)"
  by (simp add: setTargetFunction_def setTarget_def)

text \<open>
  The run on the second image. The jump at \<open>0x1003\<close> is decoded first; its target
  \<open>0x1002\<close> lies in the allowed range from \<open>0x1000\<close> to \<open>0x1002\<close>, of size three, and
  the byte window is cut to the size of that range (line 242), not to the one byte
  that remains of it: the decoder lifts \<open>0x1002\<close> and goes on into the jump at
  \<open>0x1003\<close>, which is lifted a second time.
\<close>

lemma toHexString_1002: "toHexString 4098 = ''1002''"
  by code_simp

lemma address_lifted_twice:
  "case decode exExt2 exFuel exFuel exDecoder2 of
     Inl e \<Rightarrow> False
   | Inr s \<Rightarrow> jumpTargets s = [] \<and> addr2fnc s = [(4099, 1), (4098, 6)]
       \<and> map instId (anchorsAt s 4099) = [11, 4]"
  by (simp add: ex_defs exDecoder2_def exExt2_def exImage2_def dec_defs Let_def toHexString_1002
      anchorsAt_def setTargetBbTrue_def getBasicBlock_def getParent_def locateBlock_def)

text \<open>
  The run on the third image. The call at \<open>0x1002\<close> targets \<open>0x1000\<close>, before the only
  function there is. \<open>getIrBuilder\<close> asks \<open>getFunctionContainingAddress\<close> (line 378),
  which finds no function before the address and hands the null pointer to
  \<open>getFunctionEndAddress\<close> (line 608).
\<close>

lemma call_before_first_function_dereferences_null:
  "decode exExt3 exFuel exFuel exDecoder3 = Inl NullDereference"
  by (simp add: ex_defs exDecoder3_def exExt3_def exImage3_def dec_defs Let_def toHexString_1002)

subsection \<open>The dump reads the module only\<close>

lemma sameModule_dumpFnc:
  assumes "sameModule s t"
  shows "dumpFnc s = dumpFnc t"
proof -
  from assms have eqs: "fncList s = fncList t" "fncBlocks s = fncBlocks t" "bbInsts s = bbInsts t"
    "fnc2addr s = fnc2addr t" "bb2addr s = bb2addr t"
    by (simp_all add: sameModule_def)
  have w: "walkBack s = walkBack t"
  proof
    fix bs show "walkBack s bs = walkBack t bs"
      by (induction bs) (simp_all add: eqs split: option.splits)
  qed
  have lb: "locateBlock s = locateBlock t"
    by (rule ext) (simp add: locateBlock_def eqs)
  have sa: "succAddress s = succAddress t"
  proof
    fix b show "succAddress s b = succAddress t b"
      unfolding succAddress_def lb w eqs by (rule refl)
  qed
  have ba: "getBasicBlockAddress s = getBasicBlockAddress t"
    by (rule ext) (simp add: getBasicBlockAddress_def eqs)
  have be: "getBasicBlockEndAddress s = getBasicBlockEndAddress t"
  proof
    fix b show "getBasicBlockEndAddress s b = getBasicBlockEndAddress t b"
      unfolding getBasicBlockEndAddress_def ba eqs by (rule refl)
  qed
  have su: "successors s = successors t"
    by (rule ext) (simp add: successors_def eqs)
  have db: "dumpBb s = dumpBb t"
  proof
    fix b show "dumpBb s b = dumpBb t b"
      unfolding dumpBb_def ba be su sa by (rule refl)
  qed
  have fa: "getFunctionAddress s = getFunctionAddress t"
    by (rule ext) (simp add: getFunctionAddress_def eqs)
  have fe: "getFunctionEndAddress s = getFunctionEndAddress t"
  proof
    fix f show "getFunctionEndAddress s f = getFunctionEndAddress t f"
      unfolding getFunctionEndAddress_def fa eqs by (rule refl)
  qed
  show ?thesis
  proof
    fix f show "dumpFnc s f = dumpFnc t f"
      unfolding dumpFnc_def fa fe db eqs by (rule refl)
  qed
qed

lemma toHexString_1000: "toHexString 4096 = ''1000''"
  by code_simp

lemma exOne_dump: "dumpControFlowToJson exOne = Inr exJson"
  by (simp add: exOne_def exDecoder_def dumpControFlowToJson_def dumpFnc_def dumpBb_def
   getFunctionAddress_def getFunctionEndAddress_def getBasicBlockAddress_def
   getBasicBlockEndAddress_def lastAsmAddress_def List.map_filter_def exAnchor_def
   successors_def toHexPrefixString_def toHexString_1000 exJson_def)

lemma exOther_dump: "dumpControFlowToJson exOther = Inr exJson"
  by (simp add: exOther_def exOne_def exDecoder_def dumpControFlowToJson_def dumpFnc_def dumpBb_def
   getFunctionAddress_def getFunctionEndAddress_def getBasicBlockAddress_def
   getBasicBlockEndAddress_def lastAsmAddress_def List.map_filter_def exAnchor_def
   successors_def toHexPrefixString_def toHexString_1000 exJson_def)

text \<open>A run of \<open>Decoder::run\<close> with a configuration and an image: nothing is left to
  decode, the control flow is dumped, and the process exits with status 1.\<close>

lemma run_exits_on_example:
  "Decoder_run exInit exFuel (Some ()) (Some ()) exDecoder = (Exited 1, Some exJson)"
proof -
  have "jumpTargets exOther = []" by (simp add: exOther_def)
  then have "decode exExt exFuel exFuel exOther = Inr exOther"
    by (simp add: exFuel_def)
  then show ?thesis
    by (simp add: Decoder_run_def exInit_def exOther_dump)
qed

lemma decodedRange_closedAddrs:
  "closedAddrs (decodedRange start a) = (if start < a then {x. start \<le> x \<and> x < a} else {start})"
proof (cases "start < a")
  case True
  then have nz: "a \<noteq> 0" by auto
  have "\<And>x. (x \<le> a - 1) = (x < a)"
    using nz by (simp add: word_le_nat_alt word_less_nat_alt unat_minus_one)
      (metis Suc_pred le_simps(2) unat_gt_0 less_Suc_eq_le)
  with True show ?thesis by (simp add: closedAddrs_def decodedRange_def)
next
  case False
  then show ?thesis by (auto simp: closedAddrs_def decodedRange_def)
qed

text \<open>The first jump target of the example: the builder is placed in the new function
  \<open>main\<close>, and the loop lifts the call at \<open>0x1000\<close> and stops with the cursor at \<open>0x1002\<close>.\<close>

lemma exStep:
  "case getIrBuilder exEntry 4096 exDecoder of
     Inl e \<Rightarrow> False
   | Inr (pos, s1) \<Rightarrow>
       (case decodeLoop exExt exFuel (take (rangeSize exExt (4096, 4099)) exImage) 4096 pos s1 of
          Inl e \<Rightarrow> False
        | Inr (a, s2) \<Rightarrow> a = 4098 \<and> allowedRanges s2 = [(4096, 4099)])"
  by (simp add: ex_defs dec_defs Let_def exEntry_def)

text \<open>The split of a call target passes through the state of \<open>splitIndexedFunction\<close>:
  what is left to do there is to index the entry block of the new function.\<close>

lemma recover_passes_split_state:
  assumes "jt_type jt = CONTROL_FLOW_CALL_TARGET" "splitIndexedFunction a s = Some m"
  shows "recover jt a s =
           (case fncBlocks m (nextId s) of
              [] \<Rightarrow> Inl NullDereference
            | newBb # rest \<Rightarrow> Inr (indexBasicBlock a newBb m))"
  using assms
  by (auto simp: recover_def splitIndexedFunction_def splitFunctionOn_def indexFunction_def Let_def
      split: option.splits prod.splits)

text \<open>
  The example in that state: the third jump target of the run is the call target
  \<open>0x1003\<close>, in no allowed range; when the new function (identity 10) has been indexed
  at \<open>0x1003\<close>, its entry block (identity 11) has no address yet.
\<close>

lemma exSplitState:
  "case decodeStates exExt exFuel exFuel exDecoder of
     [s0, s1, s2, s3] \<Rightarrow>
       (case top (jumpTargets s2) of
          None \<Rightarrow> False
        | Some jt \<Rightarrow>
            jt_type jt = CONTROL_FLOW_CALL_TARGET \<and> jt_address jt = Defined 4099
            \<and> find (\<lambda>r. rangeContains exExt r 4099) (allowedRanges s2) = None
            \<and> (case splitIndexedFunction 4099 (s2\<lparr>jumpTargets := pop (jumpTargets s2)\<rparr>) of
                  None \<Rightarrow> False
                | Some m \<Rightarrow> addr2fnc m = [(4096, 1), (4099, 10)] \<and> fncBlocks m 10 = [11]
                    \<and> bb2addr m 11 = None \<and> \<not> indexedEntries m))
   | _ \<Rightarrow> False"
  by (simp add: ex_defs dec_defs Let_def toHexString_1003 splitIndexedFunction_def
      indexedEntries_def firstBlockAt_def)

subsection \<open>The invariant of the indices\<close>

lemma frame_refl: "frame s s"
  by (simp add: frame_def)

lemma frame_trans:
  assumes "frame s s1" "frame s1 s2"
  shows "frame s s2"
  unfolding frame_def
proof (intro conjI allI impI)
  show "nextId s \<le> nextId s2" using assms by (simp add: frame_def)
next
  fix f b bs assume h: "f < nextId s" "b < nextId s" "fncBlocks s f = b # bs"
  from assms(1) h obtain bs1 where 1: "fncBlocks s1 f = b # bs1" "bb2addr s1 b = bb2addr s b"
    unfolding frame_def by blast
  have le: "nextId s \<le> nextId s1" using assms(1) by (simp add: frame_def)
  from assms(2) 1 h le obtain bs2 where 2: "fncBlocks s2 f = b # bs2" "bb2addr s2 b = bb2addr s1 b"
    unfolding frame_def by (meson less_le_trans)
  show "\<exists>bs'. fncBlocks s2 f = b # bs'" using 2 by blast
  show "bb2addr s2 b = bb2addr s b" using 1 2 by simp
qed

lemma entryOk_frame:
  assumes "frame s s'" "entryOk s e"
  shows "entryOk s' e"
proof -
  from assms(2) obtain b bs where h: "snd e < nextId s" "fncBlocks s (snd e) = b # bs"
      "b < nextId s" "bb2addr s b = Some (fst e)"
    by (auto simp: entryOk_def split: list.splits)
  from assms(1) h obtain bs' where 1: "fncBlocks s' (snd e) = b # bs'" "bb2addr s' b = bb2addr s b"
    unfolding frame_def by blast
  have "nextId s \<le> nextId s'" using assms(1) by (simp add: frame_def)
  then show ?thesis using h 1 by (simp add: entryOk_def)
qed

lemma indexInv_frame:
  "frame s s' \<Longrightarrow> addr2fnc s' = addr2fnc s \<Longrightarrow> indexInv s \<Longrightarrow> indexInv s'"
  by (simp add: indexInv_def list_all_iff entryOk_frame)

lemma list_all_update:
  "list_all P al \<Longrightarrow> P (k, v) \<Longrightarrow> list_all P (AList.update k v al)"
  by (induction al) auto

lemma indexInv_frame_update:
  assumes "frame s s'" "addr2fnc s' = AList.update a f (addr2fnc s)" "entryOk s' (a, f)" "indexInv s"
  shows "indexInv s'"
proof -
  have "list_all (entryOk s') (addr2fnc s)"
    using assms(1,4) by (simp add: indexInv_def list_all_iff entryOk_frame)
  then show ?thesis
    using assms(2,3) by (simp add: indexInv_def list_all_update)
qed


lemma createBasicBlock_frame: "frame s (snd (createBasicBlock a n f ia s))"
  unfolding frame_def createBasicBlock_def Let_def
  by (auto split: option.splits prod.splits simp: insertAt_def)

lemma createBasicBlock_addr2fnc: "addr2fnc (snd (createBasicBlock a n f ia s)) = addr2fnc s"
  by (simp add: createBasicBlock_def Let_def)

lemma createBasicBlock_inv: "indexInv s \<Longrightarrow> indexInv (snd (createBasicBlock a n f ia s))"
  using createBasicBlock_frame createBasicBlock_addr2fnc indexInv_frame by blast


lemma createFunction_inv:
  assumes "createFunction a n s = Inr (f, s')" "indexInv s"
  shows "indexInv s'"
proof -
  define s1 where "s1 = s\<lparr>fncList := (case getFunctionBeforeAddress s a of
                        Some g \<Rightarrow> insertAfterL g (nextId s) (fncList s)
                      | None \<Rightarrow> nextId s # fncList s),
                      fncName := (fncName s)(nextId s := (if n = [] then ''function_'' @ toHexString a else n)),
                      fncBlocks := (fncBlocks s)(nextId s := []),
                      nextId := Suc (nextId s)\<rparr>"
  define s2 where "s2 = snd (createBasicBlock a [] (nextId s) None s1)"
  have res: "f = nextId s" "s' = s2\<lparr>addr2fnc := AList.update a f (addr2fnc s2), fnc2addr := (fnc2addr s2)(f \<mapsto> a)\<rparr>"
    using assms(1) unfolding createFunction_def Let_def s1_def s2_def
    by (auto split: if_splits)
  have f1: "frame s s1"
    by (auto simp: frame_def s1_def)
  have f2: "frame s1 s2"
    unfolding s2_def by (rule createBasicBlock_frame)
  have f3: "frame s2 s'"
    by (simp add: res frame_def)
  have fr: "frame s s'"
    using f1 f2 f3 frame_trans by blast
  have a2: "addr2fnc s2 = addr2fnc s"
    by (simp add: s2_def createBasicBlock_addr2fnc) (simp add: s1_def)
  have ok: "entryOk s' (a, f)"
    by (simp add: entryOk_def res s2_def createBasicBlock_def Let_def s1_def)
  show ?thesis
    using fr ok assms(2) a2 res(2) by (intro indexInv_frame_update[of s s' a f]) simp_all
qed

lemma indexInv_pseudo [simp]: "indexInv (s\<lparr>pseudoWorklist := w\<rparr>) = indexInv s"
proof -
  have "entryOk (s\<lparr>pseudoWorklist := w\<rparr>) = entryOk s"
    by (rule ext) (simp add: entryOk_def split: list.splits)
  then show ?thesis by (simp add: indexInv_def)
qed

lemma indexInv_jumpTargets [simp]: "indexInv (s\<lparr>jumpTargets := q\<rparr>) = indexInv s"
proof -
  have "entryOk (s\<lparr>jumpTargets := q\<rparr>) = entryOk s"
    by (rule ext) (simp add: entryOk_def split: list.splits)
  then show ?thesis by (simp add: indexInv_def)
qed

lemma indexInv_allowedRanges [simp]: "indexInv (s\<lparr>allowedRanges := r\<rparr>) = indexInv s"
proof -
  have "entryOk (s\<lparr>allowedRanges := r\<rparr>) = entryOk s"
    by (rule ext) (simp add: entryOk_def split: list.splits)
  then show ?thesis by (simp add: indexInv_def)
qed

lemma setTargetFunction_inv: "setTargetFunction c f s = Inr s' \<Longrightarrow> indexInv s' = indexInv s"
  by (auto simp: setTargetFunction_def split: option.splits sum.splits)

lemma setTargetBbTrue_inv: "setTargetBbTrue c f s = Inr s' \<Longrightarrow> indexInv s' = indexInv s"
  by (auto simp: setTargetBbTrue_def split: option.splits sum.splits)

lemma setTargetBbFalse_inv: "setTargetBbFalse c f s = Inr s' \<Longrightarrow> indexInv s' = indexInv s"
  by (auto simp: setTargetBbFalse_def split: option.splits sum.splits)

lemma builderInNewFunction_inv:
  "builderInNewFunction jt a p s = Inr (pos, s') \<Longrightarrow> indexInv s \<Longrightarrow> indexInv s'"
  by (auto simp: builderInNewFunction_def setTargetFunction_inv split: sum.splits prod.splits if_splits
      dest!: createFunction_inv)

lemma builderAtTerminator_same: "builderAtTerminator b s = Inr (p, s') \<Longrightarrow> s' = s"
  by (auto simp: builderAtTerminator_def split: option.splits)


lemma getIrBuilder_inv:
  assumes "getIrBuilder jt a s = Inr (pos, s')" "indexInv s"
  shows "indexInv s'"
proof (cases "addr2fnc s = [] \<and> jt_type jt = ENTRY_POINT")
  case True
  then show ?thesis
    using assms by (auto simp: getIrBuilder_def dest: builderInNewFunction_inv)
next
  case False
  show ?thesis
  proof (cases "jt_type jt")
    case ENTRY_POINT
    then show ?thesis using assms False by (simp add: getIrBuilder_def)
  next
    case CONTROL_FLOW_CALL_TARGET
    then show ?thesis
      using assms False
      by (auto simp: getIrBuilder_def split: sum.splits option.splits if_splits
          dest: builderInNewFunction_inv)
  next
    case CONTROL_FLOW_CALL_AFTER
    then show ?thesis
      using assms False
      by (auto simp: getIrBuilder_def split: sum.splits prod.splits if_splits)
  next
    case CONTROL_FLOW_BR_TRUE
    then show ?thesis
      using assms False
      by (auto simp: getIrBuilder_def split: sum.splits prod.splits option.splits if_splits
          dest: builderInNewFunction_inv
          dest!: builderAtTerminator_same setTargetBbTrue_inv
          simp: createBasicBlock_inv[of s, unfolded snd_conv])
         (metis createBasicBlock_inv snd_conv)+
  next
    case CONTROL_FLOW_BR_FALSE
    then show ?thesis
      using assms False
      by (auto simp: getIrBuilder_def split: sum.splits prod.splits option.splits if_splits
          dest!: builderAtTerminator_same setTargetBbFalse_inv)
         (metis createBasicBlock_inv snd_conv)+
  next
    case CONTROL_FLOW_RETURN_TARGET
    then show ?thesis using assms False by (simp add: getIrBuilder_def)
  qed
qed


lemma makeStart_index_inv:
  assumes "makeStart ai s = (newBb, s1)" "indexInv s"
  shows "indexInv (indexBasicBlock a newBb s1)"
proof -
  obtain f b j where ai: "ai = (f, b, j)" by (cases ai) auto
  have nb: "newBb = nextId s"
    using assms(1) by (auto simp: makeStart_def ai Let_def)
  have fr: "frame s (indexBasicBlock a newBb s1)"
    using assms(1)
    by (auto simp: makeStart_def ai Let_def frame_def indexBasicBlock_def insertAt_def)
  have "addr2fnc (indexBasicBlock a newBb s1) = addr2fnc s"
    using assms(1) by (auto simp: makeStart_def ai Let_def indexBasicBlock_def)
  then show ?thesis using fr assms(2) indexInv_frame by blast
qed

lemma splitFunctionOn_index_inv:
  assumes "splitFunctionOn ai n s = (newFnc, s1)" "fncBlocks s1 newFnc = newBb # rest" "indexInv s"
  shows "indexInv (indexBasicBlock a newBb (indexFunction a newFnc s1))"
proof -
  obtain f b j where ai: "ai = (f, b, j)" by (cases ai) auto
  let ?s' = "indexBasicBlock a newBb (indexFunction a newFnc s1)"
  have nf: "newFnc = nextId s" "newBb = Suc (nextId s)" "nextId s1 = nextId s + 3"
    using assms(1,2) by (auto simp: splitFunctionOn_def ai Let_def)
  have fr: "frame s ?s'"
    using assms(1) nf
    by (auto simp: splitFunctionOn_def ai Let_def frame_def indexBasicBlock_def indexFunction_def)
  have a2: "addr2fnc ?s' = AList.update a newFnc (addr2fnc s)"
    using assms(1) by (auto simp: splitFunctionOn_def ai Let_def indexBasicBlock_def indexFunction_def)
  have ok: "entryOk ?s' (a, newFnc)"
    using assms(1,2) nf
    by (auto simp: entryOk_def splitFunctionOn_def ai Let_def indexBasicBlock_def indexFunction_def)
  show ?thesis
    using fr a2 ok assms(3) by (rule indexInv_frame_update)
qed

lemma recover_inv:
  assumes "recover jt a s = Inr s'" "indexInv s"
  shows "indexInv s'"
proof (cases "jt_type jt")
  case ENTRY_POINT
  then show ?thesis using assms by (simp add: recover_def)
next
  case CONTROL_FLOW_CALL_TARGET
  then show ?thesis
    using assms
    by (auto simp: recover_def setTargetFunction_inv split: option.splits prod.splits list.splits
        dest: splitFunctionOn_index_inv)
next
  case CONTROL_FLOW_CALL_AFTER
  then show ?thesis using assms by (simp add: recover_def)
next
  case CONTROL_FLOW_BR_TRUE
  then show ?thesis
    using assms
    by (auto simp: recover_def setTargetBbTrue_inv split: sum.splits option.splits prod.splits if_splits
        dest: makeStart_index_inv)
next
  case CONTROL_FLOW_BR_FALSE
  then show ?thesis
    using assms
    by (auto simp: recover_def setTargetBbFalse_inv split: sum.splits option.splits prod.splits if_splits)
next
  case CONTROL_FLOW_RETURN_TARGET
  then show ?thesis using assms by (simp add: recover_def)
qed

lemma emit_inv: "indexInv s \<Longrightarrow> indexInv (emit pos es s)"
proof -
  have "frame s (emit pos es s)" by (simp add: frame_def emit_def)
  moreover have "addr2fnc (emit pos es s) = addr2fnc s" by (simp add: emit_def)
  ultimately show "indexInv s \<Longrightarrow> indexInv (emit pos es s)" using indexInv_frame by blast
qed

lemma getJumpTargetsFromInstruction_inv:
  "getJumpTargetsFromInstruction X a tr s = Inr (b, s') \<Longrightarrow> indexInv s' = indexInv s"
  by (auto simp: getJumpTargetsFromInstruction_def Let_def pushIfDefined_def pushTarget_def
      addPseudoTo_def split: if_splits sum.splits)

lemma decodeLoop_inv:
  "decodeLoop X n bytes a pos s = Inr (a', s') \<Longrightarrow> indexInv s \<Longrightarrow> indexInv s'"
proof (induction n arbitrary: bytes a s)
  case 0
  then show ?case by simp
next
  case (Suc n)
  let ?res = "translateOne X bytes a (nextId s)"
  let ?s1 = "emit pos (tr_emitted ?res) s"
  have i1: "indexInv ?s1" using Suc.prems(2) by (rule emit_inv)
  show ?case
  proof (cases "tr_llvmInsn ?res")
    case None
    then show ?thesis using Suc.prems(1) i1 by (auto simp: Let_def)
  next
    case (Some li)
    show ?thesis
    proof (cases "asmAddress li")
      case None
      then show ?thesis using Suc.prems(1) i1 Some by (auto simp: Let_def)
    next
      case (Some ia)
      note ia = this
      show ?thesis
      proof (cases "tr_failed ?res")
        case True
        then show ?thesis using Suc.prems(1) i1 \<open>tr_llvmInsn ?res = Some li\<close> ia by (auto simp: Let_def)
      next
        case False
        then obtain bbEnd s2 where g: "getJumpTargetsFromInstruction X ia ?res ?s1 = Inr (bbEnd, s2)"
          using Suc.prems(1) \<open>tr_llvmInsn ?res = Some li\<close> ia
          by (auto simp: Let_def split: sum.splits)
        then have i2: "indexInv s2" using i1 getJumpTargetsFromInstruction_inv by blast
        show ?thesis
        proof (cases bbEnd)
          case True
          then show ?thesis
            using Suc.prems(1) \<open>tr_llvmInsn ?res = Some li\<close> ia False g i2 by (auto simp: Let_def)
        next
          case nend: False
          then have "decodeLoop X n (tr_bytes ?res) (tr_addr ?res) pos s2 = Inr (a', s')"
            using Suc.prems(1) \<open>tr_llvmInsn ?res = Some li\<close> ia False g by (auto simp: Let_def)
          then show ?thesis using Suc.IH i2 by blast
        qed
      qed
    qed
  qed
qed

lemma decodeJumpTarget_inv:
  "decodeJumpTarget X k jt s = Inr s' \<Longrightarrow> indexInv s \<Longrightarrow> indexInv s'"
  by (auto simp: decodeJumpTarget_def split: Address.splits option.splits sum.splits prod.splits
      dest: recover_inv getIrBuilder_inv decodeLoop_inv)

lemma decodeStates_inv:
  "indexInv s \<Longrightarrow> list_all indexInv (decodeStates X n k s)"
proof (induction n arbitrary: s)
  case 0
  then show ?case by simp
next
  case (Suc n)
  then show ?case
    by (auto split: option.splits sum.splits dest!: decodeJumpTarget_inv)
qed

lemma indexInv_firstBlockAt: "indexInv s \<Longrightarrow> list_all (firstBlockAt s) (addr2fnc s)"
  by (auto simp: indexInv_def list_all_iff entryOk_def firstBlockAt_def split: list.splits)

lemma decode_in_states:
  "decode X n k s = Inr s' \<Longrightarrow> s' \<in> set (decodeStates X n k s)"
  by (induction n arbitrary: s) (auto split: option.splits sum.splits if_splits)


subsection \<open>The claims\<close>

text \<open>
  C2. For a call target in no allowed range, the claim has the pseudo call patched to
  the new function after the split. The code indexes the new function and its entry
  block (lines 216 to 220) and then returns at line 229 without a call of
  \<open>setTargetFunction\<close>. On the example the call at \<open>0x1000\<close> (identity 5) targets
  \<open>0x1003\<close>, inside \<open>main\<close>: after the run the function \<open>function_1003\<close> (identity 10)
  and its entry block (identity 11) are indexed at \<open>0x1003\<close>, the worklist is empty,
  and the pseudo call has no target function.
\<close>

theorem call_target_split_not_patched:
  "case decode exExt exFuel exFuel exDecoder of
     Inl e \<Rightarrow> False
   | Inr s \<Rightarrow> fncName s 10 = ''function_1003''
       \<and> getFunction s 4099 = Some 10 \<and> fnc2addr s 10 = Some 4099
       \<and> getBasicBlock s 4099 = Some 11 \<and> bb2addr s 11 = Some 4099
       \<and> fncBlocks s 10 = [11]
       \<and> jumpTargets s = []
       \<and> targetFunction (pseudoWorklist s) 5 = None"
  using exRun by (simp add: getFunction_def getBasicBlock_def split: sum.splits)

text \<open>
  C3, as stated: the range removed is the half-open range from \<open>start\<close> to the cursor.
  The code hands \<open>AddressRange(start, addr - 1)\<close> to \<open>remove\<close> when the cursor moved and
  \<open>AddressRange(start, start)\<close> when it did not (line 274). A cursor that stays at
  \<open>0x1000\<close> and a cursor that stops at \<open>0x1001\<close> give the same range, so whatever
  addresses a range holds, one of the two runs does not remove the half-open range:
  read from first to last address the range of the first run holds \<open>0x1000\<close>, which
  was not lifted; read as half-open the range of the second run is empty.
\<close>

theorem decoded_range_not_half_open:
  "decodedRange 4096 4096 = decodedRange 4096 4097
   \<and> halfOpenAddrs (4096, 4096) \<noteq> halfOpenAddrs (4096, 4097)
   \<and> closedAddrs (decodedRange 4096 4096) \<noteq> halfOpenAddrs (4096, 4096)
   \<and> halfOpenAddrs (decodedRange 4096 4097) \<noteq> halfOpenAddrs (4096, 4097)"
proof -
  have "(4096 :: addr) \<in> halfOpenAddrs (4096, 4097)"
    by (simp add: halfOpenAddrs_def)
  moreover have "(4096 :: addr) \<notin> halfOpenAddrs (4096, 4096)"
    by (simp add: halfOpenAddrs_def)
  moreover have "(4096 :: addr) \<in> closedAddrs (decodedRange 4096 4096)"
    by (simp add: closedAddrs_def decodedRange_def)
  moreover have "(4096 :: addr) \<notin> halfOpenAddrs (decodedRange 4096 4097)"
    by (simp add: halfOpenAddrs_def decodedRange_def)
  moreover have "decodedRange 4096 4096 = decodedRange 4096 4097"
    by (simp add: decodedRange_def)
  ultimately show ?thesis by metis
qed

text \<open>
  C3, amended: for every jump target decoded starting at \<open>start\<close> and ending with the
  cursor at \<open>a\<close>, \<open>decodeJumpTarget\<close> ends by removing from the allowed ranges the range
  \<open>decodedRange start a\<close>; read from its first to its last address, that range holds
  exactly the addresses from \<open>start\<close> up to, not including, the cursor when the cursor
  moved past \<open>start\<close>, and the single address \<open>start\<close> when it did not.
\<close>

theorem decodeJumpTarget_removes_decoded_range:
  assumes "jt_address jt = Defined start"
    and "find (\<lambda>r. rangeContains X r start) (allowedRanges s) = Some rng"
    and "getRawSegmentData X start = Some bytes"
    and "getIrBuilder jt start s = Inr (pos, s1)"
    and "decodeLoop X fuel (take (rangeSize X rng) bytes) start pos s1 = Inr (a, s2)"
  shows "decodeJumpTarget X fuel jt s
           = Inr (s2\<lparr>allowedRanges := rangeRemove X (decodedRange start a) (allowedRanges s2)\<rparr>)
         \<and> closedAddrs (decodedRange start a)
             = (if start < a then {x. start \<le> x \<and> x < a} else {start})"
  using assms by (simp add: decodeJumpTarget_def decodedRange_closedAddrs)

theorem decodeJumpTarget_removes_decoded_range_witness:
  "case getIrBuilder exEntry 4096 exDecoder of
     Inl e \<Rightarrow> False
   | Inr (pos, s1) \<Rightarrow>
       (case decodeLoop exExt exFuel (take (rangeSize exExt (4096, 4099)) exImage) 4096 pos s1 of
          Inl e \<Rightarrow> False
        | Inr (a, s2) \<Rightarrow>
            a = 4098
            \<and> decodeJumpTarget exExt exFuel exEntry exDecoder
                = Inr (s2\<lparr>allowedRanges :=
                           rangeRemove exExt (decodedRange 4096 a) (allowedRanges s2)\<rparr>)
            \<and> rangeRemove exExt (decodedRange 4096 a) (allowedRanges s2) = [(4098, 4099)]
            \<and> closedAddrs (decodedRange 4096 a) = {x. 4096 \<le> x \<and> x < 4098})"
proof -
  obtain pos s1 where g: "getIrBuilder exEntry 4096 exDecoder = Inr (pos, s1)"
    using exStep by (auto split: sum.splits)
  obtain a s2
    where l: "decodeLoop exExt exFuel (take (rangeSize exExt (4096, 4099)) exImage) 4096 pos s1
                = Inr (a, s2)"
      and a: "a = 4098" and r: "allowedRanges s2 = [(4096, 4099)]"
    using exStep g by (auto split: sum.splits)
  have j: "jt_address exEntry = Defined 4096" by (simp add: exEntry_def)
  have f: "find (\<lambda>r. rangeContains exExt r 4096) (allowedRanges exDecoder) = Some (4096, 4099)"
    by (simp add: ex_defs)
  have d: "getRawSegmentData exExt 4096 = Some exImage"
    by (simp add: ex_defs)
  have rm: "rangeRemove exExt (decodedRange 4096 4098) [(4096, 4099)] = [(4098, 4099)]"
    by (simp add: ex_defs decodedRange_def)
  show ?thesis
    using decodeJumpTarget_removes_decoded_range [OF j f d g l] a r rm g l by simp
qed

text \<open>
  C4. The claim has \<open>Decoder::run\<close> return a boolean after the worklist is drained. With
  a configuration and an image, the code never returns: after \<open>decode\<close> and the dumps
  it calls \<open>exit(1)\<close> (line 107), unless a fatal error came first.
\<close>

theorem run_never_returns:
  "fst (Decoder_run init fuel (Some c) (Some i) s) \<noteq> Returned b"
  by (simp add: Decoder_run_def split: prod.splits sum.splits)

text \<open>
  C5. Called with a null pointer, both accessors build an undefined address, drop it
  (lines 550 and 688 lack the \<open>return\<close>) and go on to read through the pointer.
\<close>

theorem end_address_of_null_dereferences:
  "getFunctionEndAddress s None = Inl NullDereference
   \<and> getBasicBlockEndAddress s None = Inl NullDereference"
  by (simp add: getFunctionEndAddress_def getBasicBlockEndAddress_def)

text \<open>
  C6. \<open>getJumpTarget\<close> gives a defined address exactly for a constant integer, and then
  the address is the constant's zero-extended value; for every other value it gives
  the undefined address.
\<close>

theorem getJumpTarget_constant:
  "isDefined (getJumpTarget v) = isConstantInt v
   \<and> getJumpTarget v = (case v of ConstantInt w k \<Rightarrow> Defined (getZExtValue w k) | x \<Rightarrow> Undef)"
  by (cases v) simp_all

text \<open>
  C7, as stated: at any point during decoding, every function in the
  address-to-function index has a first block indexed at the function's address. It
  fails inside the split of a call target: lines 216 and 217 index the new function,
  lines 219 and 220 index its entry block after that. In the run of the example, at
  the third jump target, the function \<open>function_1003\<close> (identity 10) is in the index at
  \<open>0x1003\<close> while its first block (identity 11) has no address.
\<close>

theorem function_indexed_before_its_block:
  "case decodeStates exExt exFuel exFuel exDecoder of
     [s0, s1, s2, s3] \<Rightarrow>
       (case splitIndexedFunction 4099 (s2\<lparr>jumpTargets := pop (jumpTargets s2)\<rparr>) of
          None \<Rightarrow> False
        | Some m \<Rightarrow> map_of (addr2fnc m) 4099 = Some 10 \<and> fncBlocks m 10 = [11]
            \<and> bb2addr m 11 = None \<and> \<not> indexedEntries m)
   | _ \<Rightarrow> False"
  using exSplitState
  by (auto split: list.splits option.splits)

text \<open>
  C7, amended: the decoder starts with an empty address-to-function index. In every
  state it is in between two jump targets (when \<open>decode\<close> tests its loop condition),
  every function in that index has at least one basic block, and the address at which
  its first block is indexed is the address at which the function is indexed.
\<close>

theorem indexed_functions_start_with_indexed_block:
  assumes "addr2fnc s0 = []"
  shows "list_all indexedEntries (decodeStates X n k s0)"
proof -
  have "indexInv s0" using assms by (simp add: indexInv_def)
  then have "list_all indexInv (decodeStates X n k s0)" by (rule decodeStates_inv)
  moreover have "\<And>s. indexInv s \<Longrightarrow> indexedEntries s"
    by (simp add: indexedEntries_def indexInv_firstBlockAt)
  ultimately show ?thesis
    by (simp add: list_all_iff)
qed

theorem indexed_functions_start_with_indexed_block_witness:
  "addr2fnc exDecoder = []
   \<and> (case decode exExt exFuel exFuel exDecoder of
        Inl e \<Rightarrow> False
      | Inr s \<Rightarrow> s \<in> set (decodeStates exExt exFuel exFuel exDecoder)
          \<and> addr2fnc s = [(4096, 1), (4099, 10)]
          \<and> fncBlocks s 1 = [2] \<and> bb2addr s 2 = Some 4096
          \<and> fncBlocks s 10 = [11] \<and> bb2addr s 11 = Some 4099
          \<and> indexedEntries s)"
proof -
  have e: "addr2fnc exDecoder = []" by (simp add: exDecoder_def)
  obtain s where s: "decode exExt exFuel exFuel exDecoder = Inr s"
    using exRun by (auto split: sum.splits)
  have m: "s \<in> set (decodeStates exExt exFuel exFuel exDecoder)"
    using s by (rule decode_in_states)
  have "indexedEntries s"
    using indexed_functions_start_with_indexed_block [OF e, of exExt exFuel exFuel] m
    by (simp add: list_all_iff)
  then show ?thesis
    using e s m exRun by simp
qed

text \<open>
  C9. The bytes of the control-flow dump depend on the module and the addresses of its
  functions and blocks only: two decoders that hold the same module give the same
  result, byte for byte, whatever else differs between them (names, worklist, allowed
  ranges, pseudo calls) and whatever the writer of JSON values is. When the dump stops
  at the failed assertion of line 840 it does so in both.
\<close>

theorem dump_depends_on_module_only:
  "sameModule s t \<Longrightarrow> writeControlFlow writer s = writeControlFlow writer t"
  by (simp add: writeControlFlow_def dumpControFlowToJson_def sameModule_dumpFnc)
     (simp add: sameModule_def)

theorem dump_depends_on_module_only_witness:
  "sameModule exOne exOther \<and> jumpTargets exOne \<noteq> jumpTargets exOther
   \<and> nextId exOne \<noteq> nextId exOther
   \<and> writeControlFlow (\<lambda>j. ''json'') exOne = writeControlFlow (\<lambda>j. ''json'') exOther
   \<and> dumpControFlowToJson exOne = Inr exJson
   \<and> dumpControFlowToJson exOther = Inr exJson"
proof -
  have sm: "sameModule exOne exOther"
    by (simp add: sameModule_def exOther_def)
  show ?thesis
    using sm dump_depends_on_module_only [OF sm, of "\<lambda>j. ''json''"] exOne_dump exOther_dump
    by (simp add: exOther_def exOne_def exDecoder_def)
qed

end
